theory Spec2Isabelle
  imports Complex_Main "HOL-Library.AList" "HOL-Library.Char_ord" "HOL-Library.List_Lexorder"
begin

section \<open>Python values and exceptions\<close>

text \<open>
  The exceptions the modelled code can raise.  A function of the source that can raise
  returns \<open>exn + 'a\<close> in the model, with \<open>Inl\<close> for the exception.
\<close>

datatype exn =
    NameError | AttributeError | ValueError | ZeroDivisionError | KeyError
  | OverflowError | OSError | CursesError

text \<open>
  A slice \<^verbatim>\<open>text[:k]\<close>: the first \<open>k\<close> characters, and for a negative \<open>k\<close> everything
  but the last \<open>-k\<close> characters.
\<close>

definition py_slice_to :: "'a list \<Rightarrow> int \<Rightarrow> 'a list" where
  "py_slice_to xs k =
     (if 0 \<le> k then take (nat k) xs else take (length xs - nat (- k)) xs)"

text \<open>
  \<^verbatim>\<open>max(iterable)\<close>: raises ValueError on an empty iterable, otherwise walks the items
  keeping the largest seen so far.
\<close>

fun py_max :: "int list \<Rightarrow> exn + int" where
  "py_max [] = Inl ValueError"
| "py_max (x # xs) = Inr (fold max xs x)"

section \<open>Python strings\<close>

text \<open>
  A string is a list of code points, and a \<open>char\<close> is a code point below 256: the model
  covers the strings of such code points.  \<^verbatim>\<open>str.isspace\<close>, which \<^verbatim>\<open>str.strip()\<close> and
  \<^verbatim>\<open>str.split()\<close> go by, holds below 256 of tab, line feed, vertical tab, form feed,
  carriage return, the four separators 0x1C--0x1F, space, next line (0x85) and no-break
  space (0xA0).
\<close>

definition is_space :: "char \<Rightarrow> bool" where
  "is_space c =
     (c \<in> set [CHR 0x09, CHR 0x0A, CHR 0x0B, CHR 0x0C, CHR 0x0D,
                CHR 0x1C, CHR 0x1D, CHR 0x1E, CHR 0x1F, CHR 0x20, CHR 0x85, CHR 0xA0])"

text \<open>
  The whitespace that \<^verbatim>\<open>int(s)\<close> and \<^verbatim>\<open>float(s)\<close> skip at both ends of a string is
  narrower: the C whitespace (tab to carriage return, and space) and the whitespace
  beyond ASCII, but not the separators 0x1C--0x1F.
\<close>

definition is_num_space :: "char \<Rightarrow> bool" where
  "is_num_space c =
     (c \<in> set [CHR 0x09, CHR 0x0A, CHR 0x0B, CHR 0x0C, CHR 0x0D, CHR 0x20, CHR 0x85,
                CHR 0xA0])"

definition num_strip :: "string \<Rightarrow> string" where
  "num_strip s = rev (dropWhile is_num_space (rev (dropWhile is_num_space s)))"

definition py_strip :: "string \<Rightarrow> string" where
  "py_strip s = rev (dropWhile is_space (rev (dropWhile is_space s)))"

text \<open>\<^verbatim>\<open>sub in s\<close>: \<open>sub\<close> occurs in \<open>s\<close> at some position.\<close>

fun isin :: "string \<Rightarrow> string \<Rightarrow> bool" where
  "isin sub [] = (sub = [])"
| "isin sub (c # cs) = (take (length sub) (c # cs) = sub \<or> isin sub cs)"

text \<open>
  \<^verbatim>\<open>s.split(sep)\<close> for a non-empty separator: the text is scanned from the left, every
  occurrence of the separator ends the current field, and the scan goes on after it.
  The code only ever passes the non-empty separators \<^verbatim>\<open>"\n"\<close>, \<^verbatim>\<open>", "\<close> and \<^verbatim>\<open>"_"\<close>
  (Python raises ValueError on an empty one; here an empty one never matches).
\<close>

function split_from :: "string \<Rightarrow> string \<Rightarrow> string \<Rightarrow> string list" where
  "split_from sep cur [] = [cur]"
| "split_from sep cur (c # cs) =
     (if sep \<noteq> [] \<and> take (length sep) (c # cs) = sep
      then cur # split_from sep [] (drop (length sep) (c # cs))
      else split_from sep (cur @ [c]) cs)"
  by pat_completeness auto
termination
  by (relation "measure (\<lambda>(sep, cur, s). length s)") auto

definition py_split :: "string \<Rightarrow> string \<Rightarrow> string list" where
  "py_split s sep = split_from sep [] s"

text \<open>
  \<^verbatim>\<open>s.split()\<close>: the maximal runs of non-whitespace characters.
\<close>

fun split_ws_from :: "string \<Rightarrow> string \<Rightarrow> string list" where
  "split_ws_from cur [] = (if cur = [] then [] else [cur])"
| "split_ws_from cur (c # cs) =
     (if is_space c then (if cur = [] then split_ws_from [] cs else cur # split_ws_from [] cs)
      else split_ws_from (cur @ [c]) cs)"

definition py_split_ws :: "string \<Rightarrow> string list" where
  "py_split_ws s = split_ws_from [] s"

text \<open>
  \<^verbatim>\<open>s.split(maxsplit=n)\<close>: at most \<open>n\<close> splits at whitespace; what is left after the
  \<open>n\<close>-th field, without its leading whitespace, is the last field as it stands.
\<close>

fun py_split_ws_max :: "nat \<Rightarrow> string \<Rightarrow> string list" where
  "py_split_ws_max 0 s =
     (let t = dropWhile is_space s in if t = [] then [] else [t])"
| "py_split_ws_max (Suc n) s =
     (let t = dropWhile is_space s
      in if t = [] then []
         else takeWhile (\<lambda>c. \<not> is_space c) t
              # py_split_ws_max n (dropWhile (\<lambda>c. \<not> is_space c) t))"

text \<open>\<^verbatim>\<open>sep.join(xs)\<close>.\<close>

fun py_join :: "string \<Rightarrow> string list \<Rightarrow> string" where
  "py_join sep [] = []"
| "py_join sep [x] = x"
| "py_join sep (x # y # ys) = x @ sep @ py_join sep (y # ys)"

text \<open>
  \<^verbatim>\<open>int(s)\<close> on a string: the whitespace at both ends is skipped, then comes an optional
  sign, then decimal digits, where single underscores may stand between two digits.
  CPython (3.11 and the security releases before it) refuses more than 4300 digits,
  leading zeros counted and underscores not.  \<open>None\<close> is ValueError.
\<close>

definition is_digit :: "char \<Rightarrow> bool" where
  "is_digit c = (CHR ''0'' \<le> c \<and> c \<le> CHR ''9'')"

fun valid_digits :: "string \<Rightarrow> bool" where
  "valid_digits [] = False"
| "valid_digits [c] = is_digit c"
| "valid_digits (c # d # cs) =
     (is_digit c \<and> (if d = CHR ''_'' then valid_digits cs else valid_digits (d # cs)))"

definition digits_val :: "string \<Rightarrow> int" where
  "digits_val ds =
     foldl (\<lambda>a c. 10 * a + (int (of_char c) - 48)) 0 (filter (\<lambda>c. c \<noteq> CHR ''_'') ds)"

definition int_literal :: "string \<Rightarrow> bool" where
  "int_literal ds = (valid_digits ds \<and> int (length (filter is_digit ds)) \<le> 4300)"

definition py_int :: "string \<Rightarrow> int option" where
  "py_int s =
     (case num_strip s of
        [] \<Rightarrow> None
      | c # cs \<Rightarrow>
          if c = CHR ''-'' then (if int_literal cs then Some (- digits_val cs) else None)
          else if c = CHR ''+'' then (if int_literal cs then Some (digits_val cs) else None)
          else if int_literal (c # cs) then Some (digits_val (c # cs)) else None)"

section \<open>Python floats\<close>

text \<open>
  The float operations of the Python runtime that the code uses, over an abstract type
  \<open>'f\<close> of floats: \<^verbatim>\<open>float(s)\<close> on a string (\<open>None\<close> is ValueError), the literal \<^verbatim>\<open>0.0\<close>,
  true division \<^verbatim>\<open>a / b\<close> of two ints with \<open>b\<close> not zero (it can still raise
  OverflowError), \<^verbatim>\<open>x * k\<close> of a float and an int, and \<^verbatim>\<open>round(x)\<close> (which raises on
  infinities and NaN).  Every result below holds for every such structure.
\<close>

record 'f float_ops =
  f_parse :: "string \<Rightarrow> 'f option"
  f_zero :: 'f
  f_div :: "int \<Rightarrow> int \<Rightarrow> exn + 'f"
  f_mul :: "'f \<Rightarrow> int \<Rightarrow> 'f"
  f_round :: "'f \<Rightarrow> exn + int"

text \<open>
  One such structure, used only to evaluate the model on concrete inputs: exact
  rationals.  It reads plain decimal literals (sign, digits, an optional point and
  digits) and nothing else of what \<^verbatim>\<open>float\<close> reads (no exponent, no underscore, no
  \<^verbatim>\<open>inf\<close> or \<^verbatim>\<open>nan\<close>); Python reads such a literal to the nearest double, and \<open>120.5\<close> is
  itself a double.  \<^verbatim>\<open>round\<close> rounds halves to the even neighbour.
\<close>

definition dec_float :: "string \<Rightarrow> rat option" where
  "dec_float s =
     (let t = num_strip s;
          neg = (t \<noteq> [] \<and> hd t = CHR ''-'');
          u = (if t \<noteq> [] \<and> (hd t = CHR ''-'' \<or> hd t = CHR ''+'') then tl t else t);
          ip = takeWhile is_digit u;
          r = dropWhile is_digit u;
          fd = (if r \<noteq> [] \<and> hd r = CHR ''.'' then tl r else r)
      in if list_all is_digit fd \<and> (ip \<noteq> [] \<or> fd \<noteq> [])
         then Some ((if neg then - 1 else 1)
                * (of_int (digits_val ip) + of_int (digits_val fd) / 10 ^ length fd))
         else None)"

definition round_half_even :: "rat \<Rightarrow> int" where
  "round_half_even x =
     (let f = \<lfloor>x\<rfloor>; d = x - of_int f
      in if d < 1 / 2 then f else if 1 / 2 < d then f + 1 else if even f then f else f + 1)"

definition dec_ops :: "rat float_ops" where
  "dec_ops =
     \<lparr>f_parse = dec_float, f_zero = 0,
      f_div = (\<lambda>a b. Inr (of_int a / of_int b)),
      f_mul = (\<lambda>x k. x * of_int k),
      f_round = (\<lambda>x. Inr (round_half_even x))\<rparr>"

section \<open>Configuration and snapshots\<close>

text \<open>
  One entry of \<^verbatim>\<open>config["machines"]\<close>: \<^verbatim>\<open>host\<close>, \<^verbatim>\<open>username\<close> and \<^verbatim>\<open>type\<close> are read
  unconditionally by the code, \<^verbatim>\<open>key\<close> is optional (\<^verbatim>\<open>"key" not in self.machine\<close>).
\<close>

record machine =
  host :: string
  username :: string
  mtype :: string
  key :: "string option"

text \<open>
  The dictionary \<^verbatim>\<open>monitor\<close> publishes.  Python floats are kept abstract: \<open>'f\<close> is the
  type of floats, and the float operations the code uses are passed to the functions
  that need them.  The \<^verbatim>\<open>power\<close> of a device is a float on the GPU path and an int on
  the XPU path.
\<close>

datatype 'f num = IntV int | FloatV 'f

record 'f mem_info =
  percent :: 'f
  used_gb :: int
  total_gb :: int

record 'f device =
  dev_id :: int
  used_mem :: int
  total_mem :: int
  util :: int
  temp :: int
  power_w :: "'f num"
  dev_type :: string

record 'f snapshot =
  cpu :: 'f
  mem :: "'f mem_info"
  devices :: "'f device list"
  processes :: "string list list"
  timestamp :: 'f

section \<open>The remote session\<close>

text \<open>
  A call of the source returns a value, raises, or never returns (a \<^verbatim>\<open>readline\<close> that
  blocks for ever).
\<close>

datatype 'a outcome = Ret 'a | Exc exn | Hang

text \<open>
  What one call of \<^verbatim>\<open>self.ssh.stdout.readline()\<close> does: it returns a line (with its
  newline; the empty string at end of file), raises, or blocks for ever.
\<close>

datatype read_event = Line string | ReadExc exn | Blocks

text \<open>
  The messages the code prints, and the actions of a session that can be observed from
  outside: terminating the old process, starting a new one, writing to its standard
  input, printing.
\<close>

datatype msg =
    ConnectFailed string | CommandFailed int string | CommandException exn
  | XpuParseFailed

datatype action = Terminate | Popen | Write string | Print msg

text \<open>
  The fields of a \<^verbatim>\<open>MachineMonitor\<close> that change: \<^verbatim>\<open>self.connected\<close>, whether \<^verbatim>\<open>self.ssh\<close>
  holds a process, and the actions so far, oldest first.
\<close>

record session =
  connected_flag :: bool
  has_ssh :: bool
  trace :: "action list"

definition act :: "action \<Rightarrow> session \<Rightarrow> session" where
  "act a s = s\<lparr>trace := trace s @ [a]\<rparr>"

text \<open>
  What the world answers during one call of \<^verbatim>\<open>ssh_connect\<close>: whether the previous
  process is still running (\<^verbatim>\<open>poll() is None\<close>, line 22), whether \<^verbatim>\<open>Popen\<close> raises, whether
  the new process has exited after the one-second sleep (line 48), the attribute
  \<^verbatim>\<open>self.ssh.stderr\<close> (the text of the pipe, or \<open>None\<close> when the process has no stderr
  pipe), whether the writes of \<^verbatim>\<open>_init_shell\<close> raise, and what its reads return before
  its three seconds are over.
\<close>

record connect_env =
  old_alive :: bool
  popen_exc :: "exn option"
  exited :: bool
  stderr_attr :: "string option"
  init_write_exc :: "exn option"
  init_reads :: "read_event list"

text \<open>
  \<^verbatim>\<open>_init_shell\<close> (lines 59--76) writes four commands and then reads lines until one
  contains \<^verbatim>\<open>SHELL_READY\<close> or three seconds have passed:
  \<^verbatim>\<open>
  while time.time() - start < 3:
      line = self.ssh.stdout.readline()
      if "SHELL_READY" in line:
          break
  \<close>
  The list of read events holds the reads that start before the deadline.  An exception
  of the writes is taken to show at the first write.
\<close>

definition init_commands :: "string list" where
  \<open>init_commands =
     [''export LANG=C'', ''export LC_ALL=C'', ''stty -echo'',
      ''echo 'SHELL_READY'' @ [CHR 0x27]]\<close>

fun init_read_loop :: "read_event list \<Rightarrow> unit outcome" where
  "init_read_loop [] = Ret ()"
| "init_read_loop (Line l # rest) =
     (if isin ''SHELL_READY'' l then Ret () else init_read_loop rest)"
| "init_read_loop (ReadExc e # rest) = Exc e"
| "init_read_loop (Blocks # rest) = Hang"

definition init_shell :: "connect_env \<Rightarrow> session \<Rightarrow> session \<times> unit outcome" where
  "init_shell cenv s =
     (case init_write_exc cenv of
        Some e \<Rightarrow> (act (Write (hd init_commands @ ''\<newline>'')) s, Exc e)
      | None \<Rightarrow>
          (s\<lparr>trace := trace s @ map (\<lambda>c. Write (c @ ''\<newline>'')) init_commands\<rparr>,
           init_read_loop (init_reads cenv)))"

text \<open>
  \<^verbatim>\<open>ssh_connect\<close> (lines 19--57):
  \<^verbatim>\<open>
  if self.ssh and self.ssh.poll() is None:
      self.ssh.terminate()
  ...
  self.ssh = subprocess.Popen(ssh_cmd, stdin=subprocess.PIPE,
      stdout=open(os.devnull, "w"), stderr=open(os.devnull, "w"), text=True, bufsize=0)
  time.sleep(1)
  if self.ssh.poll() is not None:
      err = self.ssh.stderr.read()
      print(f"SSH connection failed: {err}")
      self.connected = False
      return False
  self._init_shell()
  self.connected = True
  return True
  \<close>
  Reading \<^verbatim>\<open>self.ssh.stderr\<close> when the attribute is \<open>None\<close> raises AttributeError.  The name
  \<^verbatim>\<open>os\<close> is not imported in \<^verbatim>\<open>monitor.py\<close>; it is taken as given here, and a run in which
  the \<^verbatim>\<open>Popen\<close> line raises for this or any other reason has \<open>popen_exc\<close> set.
\<close>

definition ssh_connect :: "connect_env \<Rightarrow> session \<Rightarrow> session \<times> bool outcome" where
  "ssh_connect cenv s =
     (let s1 = (if has_ssh s \<and> old_alive cenv then act Terminate s else s);
          s2 = act Popen s1
      in case popen_exc cenv of
           Some e \<Rightarrow> (s2, Exc e)
         | None \<Rightarrow>
             (let s3 = s2\<lparr>has_ssh := True\<rparr>
              in if exited cenv then
                   (case stderr_attr cenv of
                      None \<Rightarrow> (s3, Exc AttributeError)
                    | Some err \<Rightarrow>
                        ((act (Print (ConnectFailed err)) s3)\<lparr>connected_flag := False\<rparr>, Ret False))
                 else
                   (case init_shell cenv s3 of
                      (s4, Ret u) \<Rightarrow> (s4\<lparr>connected_flag := True\<rparr>, Ret True)
                    | (s4, Exc e) \<Rightarrow> (s4, Exc e)
                    | (s4, Hang) \<Rightarrow> (s4, Hang))))"

text \<open>
  The process object as \<^verbatim>\<open>ssh_connect\<close> creates it: \<^verbatim>\<open>stdout\<close> and \<^verbatim>\<open>stderr\<close> are given
  files, not \<^verbatim>\<open>subprocess.PIPE\<close>, so \<^verbatim>\<open>subprocess\<close> leaves both attributes \<open>None\<close>.
\<close>

definition popen_as_written :: "connect_env \<Rightarrow> bool" where
  "popen_as_written cenv = (stderr_attr cenv = None)"

text \<open>
  What the world answers during one call of \<^verbatim>\<open>get_remote_info\<close>: the answers to a
  reconnect, should one be attempted; whether writing the command raises; and what the
  reads return before the ten seconds are over.
\<close>

record cmd_env =
  conn :: connect_env
  write_exc :: "exn option"
  reads :: "read_event list"

text \<open>
  \<^verbatim>\<open>get_remote_info\<close> (lines 78--118):
  \<^verbatim>\<open>
  if not self.connected and not self.ssh_connect():
      return ""
  try:
      full_cmd = f"{cmd} ; echo \"CMD_FINISHED_$?\"\n"
      self.ssh.stdin.write(full_cmd)
      self.ssh.stdin.flush()
      output = []
      exit_code = -1
      start_time = time.time()
      while time.time() - start_time < 10:
          line = self.ssh.stdout.readline()
          if not line:
              continue
          if "CMD_FINISHED_" in line:
              code_part = line.split("_")[-1].strip()
              try:
                  exit_code = int(code_part)
              except ValueError:
                  exit_code = -1
              break
          output.append(line.strip())
      if exit_code != 0:
          print(f"command failed (code={exit_code}): {cmd}")
          return ""
      return "\n".join(output)
  except Exception as e:
      print(f"command raised: {str(e)}")
      self.connected = False
      return ""
  \<close>
  The list of read events holds the reads that start before the deadline: when it is
  used up the loop condition fails and \<open>exit_code\<close> is still \<open>-1\<close>.  The call of
  \<^verbatim>\<open>ssh_connect\<close> stands before the \<^verbatim>\<open>try\<close>, so what it raises leaves the function.
\<close>

definition full_cmd :: "string \<Rightarrow> string" where
  \<open>full_cmd cmd = cmd @ '' ; echo "CMD_FINISHED_$?"\<newline>''\<close>

definition exit_code_of :: "string \<Rightarrow> int" where
  "exit_code_of line =
     (case py_int (py_strip (last (py_split line ''_''))) of Some c \<Rightarrow> c | None \<Rightarrow> - 1)"

fun read_loop :: "read_event list \<Rightarrow> string list \<Rightarrow> (string list \<times> int) outcome" where
  "read_loop [] output = Ret (output, - 1)"
| "read_loop (Line l # rest) output =
     (if l = [] then read_loop rest output
      else if isin ''CMD_FINISHED_'' l then Ret (output, exit_code_of l)
      else read_loop rest (output @ [py_strip l]))"
| "read_loop (ReadExc e # rest) output = Exc e"
| "read_loop (Blocks # rest) output = Hang"

definition run_command :: "cmd_env \<Rightarrow> string \<Rightarrow> session \<Rightarrow> session \<times> string outcome" where
  "run_command env cmd s =
     (let s1 = act (Write (full_cmd cmd)) s
      in case write_exc env of
           Some e \<Rightarrow> ((act (Print (CommandException e)) s1)\<lparr>connected_flag := False\<rparr>, Ret [])
         | None \<Rightarrow>
             (case read_loop (reads env) [] of
                Ret (output, exit_code) \<Rightarrow>
                  if exit_code \<noteq> 0 then (act (Print (CommandFailed exit_code cmd)) s1, Ret [])
                  else (s1, Ret (py_join ''\<newline>'' output))
              | Exc e \<Rightarrow> ((act (Print (CommandException e)) s1)\<lparr>connected_flag := False\<rparr>, Ret [])
              | Hang \<Rightarrow> (s1, Hang)))"

definition get_remote_info :: "cmd_env \<Rightarrow> string \<Rightarrow> session \<Rightarrow> session \<times> string outcome" where
  "get_remote_info env cmd s =
     (if \<not> connected_flag s then
        (case ssh_connect (conn env) s of
           (s', Ret ok) \<Rightarrow> if ok then run_command env cmd s' else (s', Ret [])
         | (s', Exc e) \<Rightarrow> (s', Exc e)
         | (s', Hang) \<Rightarrow> (s', Hang))
      else run_command env cmd s)"

section \<open>Collector: the GPU parser\<close>

text \<open>
  \<^verbatim>\<open>MachineMonitor.parse_gpu\<close> (lines 158--177):
  \<^verbatim>\<open>
  gpus = []
  for line in output.split("\n"):
      if not line or ", " not in line:
          continue
      try:
          idx, used_mem, total_mem, util, temp, power = line.split(", ")
          gpus.append({"id": int(idx), "used": int(used_mem), "total": int(total_mem),
                       "util": int(util), "temp": int(temp), "power": float(power),
                       "type": "GPU"})
      except:
          continue
  return gpus
  \<close>
  The unpacking raises unless the split gives exactly six fields; every conversion
  raises on a field it cannot read; the dictionary is appended only once it is complete.
\<close>

fun parse_gpu_loop :: "'f float_ops \<Rightarrow> 'f device list \<Rightarrow> string list \<Rightarrow> 'f device list" where
  "parse_gpu_loop F gpus [] = gpus"
| "parse_gpu_loop F gpus (line # rest) =
     (if line = [] \<or> \<not> isin '', '' line then parse_gpu_loop F gpus rest
      else
        (case py_split line '', '' of
           [idx, used_m, total_m, ut, tp, pw] \<Rightarrow>
             (case (py_int idx, py_int used_m, py_int total_m, py_int ut, py_int tp,
                    f_parse F pw) of
                (Some i, Some u, Some t, Some l, Some c, Some p) \<Rightarrow>
                  parse_gpu_loop F
                    (gpus @ [\<lparr>dev_id = i, used_mem = u, total_mem = t, util = l, temp = c,
                              power_w = FloatV p, dev_type = ''GPU''\<rparr>]) rest
              | _ \<Rightarrow> parse_gpu_loop F gpus rest)
         | _ \<Rightarrow> parse_gpu_loop F gpus rest))"

definition parse_gpu :: "'f float_ops \<Rightarrow> string \<Rightarrow> 'f device list" where
  "parse_gpu F output = parse_gpu_loop F [] (py_split output ''\<newline>'')"

text \<open>
  What the specification says of one line: a well-formed line has six fields separated
  by comma and space, the first five integers and the last a float; it stands for the
  record of these six values with type \<^verbatim>\<open>"GPU"\<close>.
\<close>

definition gpu_fields :: "'f float_ops \<Rightarrow> string \<Rightarrow> (int \<times> int \<times> int \<times> int \<times> int \<times> 'f) option" where
  "gpu_fields F line =
     (let fs = py_split line '', ''
      in if length fs = 6 \<and> py_int (fs ! 0) \<noteq> None \<and> py_int (fs ! 1) \<noteq> None
            \<and> py_int (fs ! 2) \<noteq> None \<and> py_int (fs ! 3) \<noteq> None \<and> py_int (fs ! 4) \<noteq> None
            \<and> f_parse F (fs ! 5) \<noteq> None
         then Some (the (py_int (fs ! 0)), the (py_int (fs ! 1)), the (py_int (fs ! 2)),
                    the (py_int (fs ! 3)), the (py_int (fs ! 4)), the (f_parse F (fs ! 5)))
         else None)"

definition well_formed_gpu_line :: "'f float_ops \<Rightarrow> string \<Rightarrow> bool" where
  "well_formed_gpu_line F line = (gpu_fields F line \<noteq> None)"

definition gpu_record :: "'f float_ops \<Rightarrow> string \<Rightarrow> 'f device" where
  "gpu_record F line =
     (case the (gpu_fields F line) of
        (i, u, t, l, c, p) \<Rightarrow>
          \<lparr>dev_id = i, used_mem = u, total_mem = t, util = l, temp = c,
           power_w = FloatV p, dev_type = ''GPU''\<rparr>)"

section \<open>Collector: the other metrics\<close>

text \<open>
  Sequencing of calls that thread the session: the second call runs when the first
  returns, and is skipped when it raises or never returns.
\<close>

definition bnd :: "session \<times> 'a outcome \<Rightarrow> ('a \<Rightarrow> session \<Rightarrow> session \<times> 'b outcome) \<Rightarrow> session \<times> 'b outcome" where
  "bnd r k = (case r of (s, Ret a) \<Rightarrow> k a s | (s, Exc e) \<Rightarrow> (s, Exc e) | (s, Hang) \<Rightarrow> (s, Hang))"

definition cpu_cmd :: string where
  \<open>cpu_cmd = ''top -bn1 | grep 'Cpu(s)' | awk '{print 100 - $8}' | paste -sd+ | bc''\<close>

definition mem_cmd :: string where
  \<open>mem_cmd = ''free -b | grep Mem | awk '{print $2,$3}'' @ [CHR 0x27]\<close>

definition gpu_cmd :: string where
  \<open>gpu_cmd = ''nvidia-smi --query-gpu=index,memory.used,memory.total,utilization.gpu,temperature.gpu,power.draw --format=csv,noheader,nounits''\<close>

definition xpu_cmd :: string where
  \<open>xpu_cmd = ''xpu-smi --machine-readable''\<close>

definition ps_cmd :: string where
  \<open>ps_cmd = ''ps -eo pid,user,pcpu,pmem,comm --sort=-pcpu | head -n 5''\<close>

text \<open>
  \<^verbatim>\<open>get_cpu_info\<close> (lines 120--127): the call of \<^verbatim>\<open>get_remote_info\<close> stands before the
  \<^verbatim>\<open>try\<close>; \<^verbatim>\<open>float(output.strip())\<close> falls back to \<^verbatim>\<open>0.0\<close> on any exception.
\<close>

definition get_cpu_info :: "'f float_ops \<Rightarrow> cmd_env \<Rightarrow> session \<Rightarrow> session \<times> 'f outcome" where
  "get_cpu_info F env s =
     bnd (get_remote_info env cpu_cmd s)
       (\<lambda>output s'.
          (s', Ret (case f_parse F (py_strip output) of Some x \<Rightarrow> x | None \<Rightarrow> f_zero F)))"

text \<open>
  \<^verbatim>\<open>get_mem_info\<close> (lines 129--141):
  \<^verbatim>\<open>
  try:
      total, used = map(int, output.strip().split())
      return {"percent": used / total * 100,
              "used_gb": round(used / (1024**3)),
              "total_gb": round(total / (1024**3))}
  except:
      return {"percent": 0.0, "used_gb": 0, "total_gb": 0}
  \<close>
  The unpacking raises unless there are exactly two fields and \<^verbatim>\<open>int\<close> reads both;
  the division raises on \<open>total = 0\<close>.
\<close>

definition mem_default :: "'f float_ops \<Rightarrow> 'f mem_info" where
  "mem_default F = \<lparr>percent = f_zero F, used_gb = 0, total_gb = 0\<rparr>"

definition parse_mem :: "'f float_ops \<Rightarrow> string \<Rightarrow> 'f mem_info" where
  "parse_mem F output =
     (case map py_int (py_split_ws (py_strip output)) of
        [Some tot, Some usd] \<Rightarrow>
          if tot = 0 then mem_default F
          else
            (case f_div F usd tot of
               Inl e \<Rightarrow> mem_default F
             | Inr q \<Rightarrow>
                 (case f_div F usd (1024 ^ 3) of
                    Inl e \<Rightarrow> mem_default F
                  | Inr u \<Rightarrow>
                      (case f_round F u of
                         Inl e \<Rightarrow> mem_default F
                       | Inr ug \<Rightarrow>
                           (case f_div F tot (1024 ^ 3) of
                              Inl e \<Rightarrow> mem_default F
                            | Inr t \<Rightarrow>
                                (case f_round F t of
                                   Inl e \<Rightarrow> mem_default F
                                 | Inr tg \<Rightarrow>
                                     \<lparr>percent = f_mul F q 100, used_gb = ug,
                                      total_gb = tg\<rparr>)))))
      | _ \<Rightarrow> mem_default F)"

definition get_mem_info :: "'f float_ops \<Rightarrow> cmd_env \<Rightarrow> session \<Rightarrow> session \<times> 'f mem_info outcome" where
  "get_mem_info F env s =
     bnd (get_remote_info env mem_cmd s) (\<lambda>output s'. (s', Ret (parse_mem F output)))"

definition get_gpu_info :: "'f float_ops \<Rightarrow> cmd_env \<Rightarrow> session \<Rightarrow> session \<times> 'f device list outcome" where
  "get_gpu_info F env s =
     bnd (get_remote_info env gpu_cmd s) (\<lambda>output s'. (s', Ret (parse_gpu F output)))"

text \<open>
  \<^verbatim>\<open>parse_xpu\<close> (lines 179--198):
  \<^verbatim>\<open>
  for line in output.strip().split("\n"):
      parts = line.split()
      if len(parts) < 32:
          continue
      try:
          xpus.append({"id": int(parts[2]), "used": int(parts[17]), "total": int(parts[18]),
                       "util": int(parts[19]), "temp": int(parts[4]), "power": int(parts[8]),
                       "type": "XPU"})
      except Exception as e:
          print(f"XPU parse failed: {str(e)}")
  \<close>
\<close>

definition xpu_record :: "string list \<Rightarrow> 'f device option" where
  "xpu_record parts =
     (case (py_int (parts ! 2), py_int (parts ! 17), py_int (parts ! 18), py_int (parts ! 19),
            py_int (parts ! 4), py_int (parts ! 8)) of
        (Some i, Some u, Some t, Some l, Some c, Some p) \<Rightarrow>
          Some \<lparr>dev_id = i, used_mem = u, total_mem = t, util = l, temp = c,
                power_w = IntV p, dev_type = ''XPU''\<rparr>
      | _ \<Rightarrow> None)"

fun parse_xpu_loop :: "'f device list \<Rightarrow> string list \<Rightarrow> session \<Rightarrow> session \<times> 'f device list" where
  "parse_xpu_loop xpus [] s = (s, xpus)"
| "parse_xpu_loop xpus (line # rest) s =
     (if length (py_split_ws line) < 32 then parse_xpu_loop xpus rest s
      else
        (case xpu_record (py_split_ws line) of
           Some d \<Rightarrow> parse_xpu_loop (xpus @ [d]) rest s
         | None \<Rightarrow> parse_xpu_loop xpus rest (act (Print XpuParseFailed) s)))"

definition parse_xpu :: "string \<Rightarrow> session \<Rightarrow> session \<times> 'f device list" where
  "parse_xpu output s = parse_xpu_loop [] (py_split (py_strip output) ''\<newline>'') s"

definition get_xpu_info :: "cmd_env \<Rightarrow> session \<Rightarrow> session \<times> 'f device list outcome" where
  "get_xpu_info env s =
     bnd (get_remote_info env xpu_cmd s)
       (\<lambda>output s'. case parse_xpu output s' of (s'', ds) \<Rightarrow> (s'', Ret ds))"

text \<open>
  \<^verbatim>\<open>get_processes\<close> (lines 200--207):
  \<^verbatim>\<open>
  for line in output.split("\n"):
      if line.strip() and not line.startswith("PID"):
          processes.append(line.split(maxsplit=4))
  return processes[:5]
  \<close>
\<close>

fun processes_loop :: "string list list \<Rightarrow> string list \<Rightarrow> string list list" where
  "processes_loop ps [] = ps"
| "processes_loop ps (line # rest) =
     (if py_strip line \<noteq> [] \<and> take 3 line \<noteq> ''PID''
      then processes_loop (ps @ [py_split_ws_max 4 line]) rest
      else processes_loop ps rest)"

definition get_processes :: "cmd_env \<Rightarrow> session \<Rightarrow> session \<times> string list list outcome" where
  "get_processes env s =
     bnd (get_remote_info env ps_cmd s)
       (\<lambda>output s'. (s', Ret (take 5 (processes_loop [] (py_split output ''\<newline>'')))))"

section \<open>The poller\<close>

text \<open>
  What the world answers during one round of the polling loop: the answers to its four
  remote commands, and the clock reading \<^verbatim>\<open>time.time()\<close>.
\<close>

record 'f cycle_env =
  cpu_env :: cmd_env
  mem_env :: cmd_env
  dev_env :: cmd_env
  proc_env :: cmd_env
  now :: 'f

text \<open>
  The dictionary display of lines 216--222, evaluated in the order it is written:
  \<^verbatim>\<open>
  data = {"cpu": self.get_cpu_info(), "mem": self.get_mem_info(),
          "devices": self.get_gpu_info() if self.machine["type"] == "GPU"
                     else self.get_xpu_info(),
          "processes": self.get_processes(), "timestamp": time.time()}
  \<close>
\<close>

definition collect_data :: "'f float_ops \<Rightarrow> machine \<Rightarrow> 'f cycle_env \<Rightarrow> session \<Rightarrow> session \<times> 'f snapshot outcome" where
  "collect_data F m ce s =
     bnd (get_cpu_info F (cpu_env ce) s) (\<lambda>c s1.
     bnd (get_mem_info F (mem_env ce) s1) (\<lambda>mm s2.
     bnd (if mtype m = ''GPU'' then get_gpu_info F (dev_env ce) s2
          else get_xpu_info (dev_env ce) s2) (\<lambda>ds s3.
     bnd (get_processes (proc_env ce) s3) (\<lambda>ps s4.
       (s4, Ret \<lparr>cpu = c, mem = mm, devices = ds, processes = ps, timestamp = now ce\<rparr>)))))"

text \<open>
  A polling thread: its session and the events it has put on the queue, oldest first.
  Its status when it is looked at: still in the loop, returned from \<^verbatim>\<open>monitor\<close>, killed
  by an exception that left \<^verbatim>\<open>monitor\<close>, or stuck in a call that never returns.
\<close>

record 'f poller =
  sess :: session
  published :: "(string \<times> 'f snapshot option) list"

datatype status = Running | Returned | Died exn | Hung

text \<open>
  \<^verbatim>\<open>monitor\<close> (lines 209--227):
  \<^verbatim>\<open>
  if not self.ssh_connect():
      self.queue.put((self.machine["host"], None))
      return
  while True:
      try:
          data = {...}
          self.queue.put((self.machine["host"], data))
      except Exception as e:
          self.queue.put((self.machine["host"], None))
          break
      time.sleep(self.refresh_interval)
  \<close>
  The loop has no exit but the \<^verbatim>\<open>break\<close>.  It is run here on the list of the rounds that
  start while the thread is watched; when the list is used up the thread is still in
  the loop.
\<close>

fun monitor_loop :: "'f float_ops \<Rightarrow> machine \<Rightarrow> 'f cycle_env list \<Rightarrow> 'f poller \<Rightarrow> 'f poller \<times> status" where
  "monitor_loop F m [] p = (p, Running)"
| "monitor_loop F m (ce # ces) p =
     (case collect_data F m ce (sess p) of
        (s', Ret d) \<Rightarrow>
          monitor_loop F m ces \<lparr>sess = s', published = published p @ [(host m, Some d)]\<rparr>
      | (s', Exc e) \<Rightarrow>
          (\<lparr>sess = s', published = published p @ [(host m, None)]\<rparr>, Returned)
      | (s', Hang) \<Rightarrow> (\<lparr>sess = s', published = published p\<rparr>, Hung))"

definition monitor :: "'f float_ops \<Rightarrow> machine \<Rightarrow> connect_env \<Rightarrow> 'f cycle_env list \<Rightarrow> 'f poller \<Rightarrow> 'f poller \<times> status" where
  "monitor F m cenv ces p =
     (case ssh_connect cenv (sess p) of
        (s', Ret ok) \<Rightarrow>
          if ok then monitor_loop F m ces (p\<lparr>sess := s'\<rparr>)
          else (\<lparr>sess = s', published = published p @ [(host m, None)]\<rparr>, Returned)
      | (s', Exc e) \<Rightarrow> (p\<lparr>sess := s'\<rparr>, Died e)
      | (s', Hang) \<Rightarrow> (p\<lparr>sess := s'\<rparr>, Hung))"

text \<open>
  The snapshot of a round in which no command gave any output, and the condition that a
  command is sent and fails by its exit code or by the deadline.
\<close>

definition default_snapshot :: "'f float_ops \<Rightarrow> 'f \<Rightarrow> 'f snapshot" where
  "default_snapshot F t =
     \<lparr>cpu = f_zero F, mem = mem_default F, devices = [], processes = [], timestamp = t\<rparr>"

definition cmd_fails :: "cmd_env \<Rightarrow> bool" where
  "cmd_fails env =
     (write_exc env = None \<and>
      (case read_loop (reads env) [] of Ret (output, code) \<Rightarrow> code \<noteq> 0 | _ \<Rightarrow> False))"



section \<open>Dashboard: layout parameters\<close>

text \<open>
  Lines 154--161 of \<^verbatim>\<open>Dashboard.update_display\<close>:
  \<^verbatim>\<open>
  ip_length = max(len(m["host"]) for m in self.machines) + 6
  min_col_width = max(ip_length, 60)
  cols = max(1, (max_x - self.margin) // (min_col_width + self.margin))
  col_width = min(min_col_width, (max_x - self.margin * (cols + 1)) // cols)
  \<close>
  Python's \<^verbatim>\<open>//\<close> on ints is floor division, as \<open>div\<close> on \<open>int\<close> is; it raises
  ZeroDivisionError on a zero divisor.  \<open>cols\<close> is at least 1, so the second division
  cannot raise.  The result is \<open>(min_col_width, cols, col_width)\<close>.
\<close>

definition layout_params :: "int \<Rightarrow> int \<Rightarrow> machine list \<Rightarrow> exn + (int \<times> int \<times> int)" where
  "layout_params mx margin ms =
     (case py_max (map (\<lambda>m. int (length (host m))) ms) of
        Inl e \<Rightarrow> Inl e
      | Inr longest \<Rightarrow>
          (let ip_length = longest + 6;
               min_col_width = max ip_length 60
           in if min_col_width + margin = 0 then Inl ZeroDivisionError
              else
                (let cols = max 1 ((mx - margin) div (min_col_width + margin));
                     col_width = min min_col_width ((mx - margin * (cols + 1)) div cols)
                 in Inr (min_col_width, cols, col_width))))"

section \<open>Dashboard: clipped writes\<close>

text \<open>
  The curses window: its size (\<^verbatim>\<open>getmaxyx\<close>) and the write requests curses has accepted,
  oldest first, each \<open>(y, x, text, attr)\<close>.
\<close>

record screen =
  max_y :: int
  max_x :: int
  writes :: "(int \<times> int \<times> string \<times> int) list"

text \<open>
  The library call \<^verbatim>\<open>stdscr.addstr(y, x, text, attr)\<close> on a string \<^verbatim>\<open>text\<close>.  The binding
  first converts its arguments: \<^verbatim>\<open>y\<close> and \<^verbatim>\<open>x\<close> to a C \<^verbatim>\<open>int\<close> and \<^verbatim>\<open>attr\<close> to a C \<^verbatim>\<open>long\<close>
  (OverflowError outside their ranges, 32 and 64 bits here), then the text to a C string
  (ValueError when it holds a NUL character).  curses then moves the cursor, which fails
  outside the window (nothing is written, \<^verbatim>\<open>curses.error\<close>); then it writes the text, and
  reports \<^verbatim>\<open>curses.error\<close> as well when the text runs into the last cell of the window,
  the text up to there being written.
\<close>

definition c_int :: "int \<Rightarrow> bool" where
  "c_int v = (- (2 ^ 31) \<le> v \<and> v < 2 ^ 31)"

definition c_long :: "int \<Rightarrow> bool" where
  "c_long v = (- (2 ^ 63) \<le> v \<and> v < 2 ^ 63)"

definition curses_addstr :: "screen \<Rightarrow> int \<Rightarrow> int \<Rightarrow> string \<Rightarrow> int \<Rightarrow> screen \<times> exn option" where
  "curses_addstr scr y x txt attr =
     (if \<not> (c_int y \<and> c_int x \<and> c_long attr) then (scr, Some OverflowError)
      else if CHR 0x00 \<in> set txt then (scr, Some ValueError)
      else if y < 0 \<or> max_y scr \<le> y \<or> x < 0 \<or> max_x scr \<le> x then (scr, Some CursesError)
      else (scr\<lparr>writes := writes scr @ [(y, x, txt, attr)]\<rparr>,
            if max_y scr * max_x scr \<le> y * max_x scr + x + int (length txt)
            then Some CursesError else None))"

text \<open>
  \<^verbatim>\<open>Dashboard.safe_addstr\<close> (lines 47--56):
  \<^verbatim>\<open>
  max_y, max_x = self.stdscr.getmaxyx()
  if y >= max_y or x >= max_x:
      return
  text = text[:max_x - x]
  try:
      self.stdscr.addstr(y, x, text, attr)
  except curses.error:
      pass
  \<close>
  Only \<^verbatim>\<open>curses.error\<close> is caught; the OverflowError and the ValueError of the call
  leave the function.
\<close>

definition safe_addstr :: "screen \<Rightarrow> int \<Rightarrow> int \<Rightarrow> string \<Rightarrow> int \<Rightarrow> exn + screen" where
  "safe_addstr scr y x txt attr =
     (if y \<ge> max_y scr \<or> x \<ge> max_x scr then Inr scr
      else
        (case curses_addstr scr y x (py_slice_to txt (max_x scr - x)) attr of
           (scr', None) \<Rightarrow> Inr scr'
         | (scr', Some e) \<Rightarrow> if e = CursesError then Inr scr' else Inl e))"

section \<open>Dashboard: the store\<close>

text \<open>
  \<^verbatim>\<open>self.data\<close> is a \<^verbatim>\<open>defaultdict(dict)\<close> whose inner dictionaries only ever hold the key
  \<^verbatim>\<open>"latest"\<close>; it is modelled as an association list from host to the latest payload,
  \<open>None\<close> being Python's \<^verbatim>\<open>None\<close>.  The drain loop of \<^verbatim>\<open>Dashboard.run\<close> (lines 226--232):
  \<^verbatim>\<open>
  has_update = False
  while not self.queue.empty():
      host, data = self.queue.get()
      self.data[host]["latest"] = data
      self.last_update = time.time()
      has_update = True
  \<close>
  Each queued event comes with the clock reading taken when it is absorbed.
\<close>

record ('s, 'f) store_state =
  data :: "(string \<times> 's option) list"
  last_update :: 'f
  has_update :: bool

fun drain_loop :: "('s, 'f) store_state \<Rightarrow> ((string \<times> 's option) \<times> 'f) list \<Rightarrow> ('s, 'f) store_state" where
  "drain_loop st [] = st"
| "drain_loop st (((h, d), t) # q) =
     drain_loop (st\<lparr>data := AList.update h d (data st), last_update := t, has_update := True\<rparr>) q"

definition drain :: "('s, 'f) store_state \<Rightarrow> ((string \<times> 's option) \<times> 'f) list \<Rightarrow> ('s, 'f) store_state" where
  "drain st q = drain_loop (st\<lparr>has_update := False\<rparr>) q"

section \<open>Dashboard: the display refresh\<close>

text \<open>
  Decimal rendering of an integer, as an f-string does.
\<close>

fun show_nat :: "nat \<Rightarrow> string" where
  "show_nat n =
     (if n < 10 then [char_of (48 + n)] else show_nat (n div 10) @ [char_of (48 + n mod 10)])"

definition show_int :: "int \<Rightarrow> string" where
  "show_int i = (if i < 0 then ''-'' @ show_nat (nat (- i)) else show_nat (nat i))"

text \<open>
  The fields of the \<^verbatim>\<open>Dashboard\<close> that a refresh reads or writes: the configured machines,
  \<^verbatim>\<open>self.data\<close> (the store above), \<^verbatim>\<open>self.margin\<close>, \<^verbatim>\<open>self.max_devices\<close>,
  \<^verbatim>\<open>self.last_win_size\<close> and the window.
\<close>

record 'f dashboard =
  machines :: "machine list"
  dstore :: "(string \<times> 'f snapshot option) list"
  margin :: int
  max_devices :: int
  last_win_size :: "int \<times> int"
  stdscr :: screen

text \<open>
  What a refresh takes from outside the files at hand: the attribute
  \<^verbatim>\<open>curses.color_pair(Color.CYAN)\<close> (the module \<^verbatim>\<open>colors\<close> is not among the sources), the
  text of \<^verbatim>\<open>time.strftime('%H:%M:%S')\<close>, and the body of \<^verbatim>\<open>draw_machine_block\<close> for a
  snapshot that is present (lines 92--138), which formats floats: it takes the window,
  the start row, the start column, the width, the host and the snapshot, and returns the
  window and the height drawn, or raises.
\<close>

record 'f draw_env =
  cyan :: int
  clock :: string
  draw_panel :: "screen \<Rightarrow> int \<Rightarrow> int \<Rightarrow> int \<Rightarrow> string \<Rightarrow> 'f snapshot \<Rightarrow> exn + (screen \<times> int)"

text \<open>
  \<^verbatim>\<open>draw_machine_block\<close> (lines 87--91) returns 0 at once, drawing nothing, when \<^verbatim>\<open>info\<close> is
  \<^verbatim>\<open>None\<close>:
  \<^verbatim>\<open>
  if not info:
      return 0
  \<close>
  A published snapshot is a dictionary of five keys, so it is never empty.
\<close>

definition draw_machine_block ::
  "'f draw_env \<Rightarrow> screen \<Rightarrow> int \<Rightarrow> int \<Rightarrow> int \<Rightarrow> string \<Rightarrow> 'f snapshot option \<Rightarrow> exn + (screen \<times> int)" where
  "draw_machine_block E scr start_row start_col width h info =
     (case info of
        None \<Rightarrow> Inr (scr, 0)
      | Some i \<Rightarrow> draw_panel E scr start_row start_col width h i)"

text \<open>
  The loop of \<^verbatim>\<open>update_display\<close> (lines 163--207) over the sorted hosts of the store.  Its
  variables are the cursor \<^verbatim>\<open>current_row\<close>, \<^verbatim>\<open>current_col\<close>, the count \<^verbatim>\<open>drawn_machines\<close>
  and the window.
  \<^verbatim>\<open>
  for host in sorted(self.data.keys()):
      if drawn_machines >= len(self.machines):
          break
      info = self.data[host].get("latest")
      if not info:
          continue
      device_lines = min(len(info.get('devices', [])), self.max_devices)
      proc_lines = 1 if info.get('processes') else 0
      block_height = 3 + device_lines + proc_lines
      if current_col + col_width > max_x - self.margin:
          current_row += block_height + self.margin
          current_col = self.margin
          if current_row + block_height > max_y - 2:
              break
      if current_row + block_height > max_y - 2:
          break
      height = self.draw_machine_block(start_row=current_row, start_col=current_col,
                                       width=col_width, host=host, info=info)
      current_col += col_width + self.margin
      drawn_machines += 1
      if drawn_machines % cols == 0:
          current_row += height + self.margin
          current_col = self.margin
  \<close>
  A host without an entry cannot come up, the hosts being the keys of the store; the
  \<^verbatim>\<open>defaultdict\<close> would give it an empty dictionary, whose \<^verbatim>\<open>latest\<close> is \<^verbatim>\<open>None\<close>.
\<close>

record loop_state =
  current_row :: int
  current_col :: int
  drawn_machines :: int
  win :: screen

fun display_loop ::
  "'f draw_env \<Rightarrow> 'f dashboard \<Rightarrow> int \<Rightarrow> int \<Rightarrow> int \<Rightarrow> int \<Rightarrow> string list \<Rightarrow> loop_state \<Rightarrow> exn + loop_state" where
  "display_loop E d my mx cols col_width [] st = Inr st"
| "display_loop E d my mx cols col_width (h # hs) st =
     (if drawn_machines st \<ge> int (length (machines d)) then Inr st
      else
        (case map_of (dstore d) h of
           Some (Some info) \<Rightarrow>
             (let device_lines = min (int (length (devices info))) (max_devices d);
                  proc_lines = (if processes info \<noteq> [] then 1 else 0);
                  block_height = 3 + device_lines + proc_lines;
                  wrap = (current_col st + col_width > mx - margin d);
                  row1 = (if wrap then current_row st + block_height + margin d
                          else current_row st);
                  col1 = (if wrap then margin d else current_col st);
                  st1 = st\<lparr>current_row := row1, current_col := col1\<rparr>
              in if wrap \<and> row1 + block_height > my - 2 then Inr st1
                 else if row1 + block_height > my - 2 then Inr st1
                 else
                   (case draw_machine_block E (win st) row1 col1 col_width h (Some info) of
                      Inl e \<Rightarrow> Inl e
                    | Inr (scr', height) \<Rightarrow>
                        (let dm = drawn_machines st + 1
                         in display_loop E d my mx cols col_width hs
                              (if dm mod cols = 0
                               then \<lparr>current_row = row1 + height + margin d,
                                     current_col = margin d, drawn_machines = dm, win = scr'\<rparr>
                               else \<lparr>current_row = row1,
                                     current_col = col1 + col_width + margin d,
                                     drawn_machines = dm, win = scr'\<rparr>))))
         | _ \<Rightarrow> display_loop E d my mx cols col_width hs st))"

text \<open>
  \<^verbatim>\<open>update_display\<close> (lines 140--215): the window is erased, the title is written, the
  layout parameters are computed, the loop runs, and the status line is written when the
  window has more than one row.  \<^verbatim>\<open>erase\<close> and \<^verbatim>\<open>clear\<close> both blank the window, and
  \<^verbatim>\<open>last_win_size\<close> ends as the current size whether it changed or not.  The result is the
  dashboard with its new window and \<^verbatim>\<open>last_win_size\<close>, or the exception that left the
  function.
\<close>

definition title_text :: string where
  "title_text = '' Cluster Monitor (Press Q to exit) ''"

definition status_text :: "'f draw_env \<Rightarrow> int \<Rightarrow> nat \<Rightarrow> string" where
  "status_text E drawn n =
     '' Machines: '' @ show_int drawn @ ''/'' @ show_nat n @ '' | Update: '' @ clock E @ '' ''"

definition update_display :: "'f draw_env \<Rightarrow> 'f dashboard \<Rightarrow> exn + 'f dashboard" where
  "update_display E d =
     (let scr0 = (stdscr d)\<lparr>writes := []\<rparr>;
          my = max_y scr0;
          mx = max_x scr0;
          d1 = d\<lparr>last_win_size := (my, mx)\<rparr>
      in case safe_addstr scr0 0 ((mx - int (length title_text)) div 2) title_text (cyan E) of
           Inl e \<Rightarrow> Inl e
         | Inr scr1 \<Rightarrow>
             (case layout_params mx (margin d) (machines d) of
                Inl e \<Rightarrow> Inl e
              | Inr (min_col_width, cols, col_width) \<Rightarrow>
                  (case display_loop E d my mx cols col_width (sort (map fst (dstore d)))
                          \<lparr>current_row = 1, current_col = margin d, drawn_machines = 0,
                           win = scr1\<rparr> of
                     Inl e \<Rightarrow> Inl e
                   | Inr st \<Rightarrow>
                       if my > 1 then
                         (case safe_addstr (win st) (my - 1) 0
                                 (py_slice_to
                                    (status_text E (drawn_machines st) (length (machines d)))
                                    (mx - 1))
                                 (cyan E) of
                            Inl e \<Rightarrow> Inl e
                          | Inr scr2 \<Rightarrow> Inr (d1\<lparr>stdscr := scr2\<rparr>))
                       else Inr (d1\<lparr>stdscr := win st\<rparr>))))"

section \<open>Concrete inputs\<close>

text \<open>
  Inputs on which the model is evaluated below: the answers of a connection attempt that
  succeeds, and a session that is connected.
\<close>

definition cenv_ok :: connect_env where
  "cenv_ok = \<lparr>old_alive = False, popen_exc = None, exited = False, stderr_attr = None,
     init_write_exc = None, init_reads = [Line ''SHELL_READY\<newline>'']\<rparr>"

definition s_conn :: session where
  "s_conn = \<lparr>connected_flag = True, has_ssh = True, trace = []\<rparr>"

text \<open>
  A session as \<^verbatim>\<open>__init__\<close> leaves it, and the answers of a connection attempt whose
  process has exited after the first second, with the process object as the code
  creates it.
\<close>

definition s_new :: session where
  "s_new = \<lparr>connected_flag = False, has_ssh = False, trace = []\<rparr>"

definition cenv_exited :: connect_env where
  "cenv_exited = \<lparr>old_alive = False, popen_exc = None, exited = True, stderr_attr = None,
     init_write_exc = None, init_reads = []\<rparr>"

text \<open>
  A command that answers the given lines and then the sentinel with exit code 0, and one
  that answers the sentinel with exit code 1.
\<close>

definition ok_env :: "string list \<Rightarrow> cmd_env" where
  "ok_env ls = \<lparr>conn = cenv_ok, write_exc = None,
      reads = map Line ls @ [Line ''CMD_FINISHED_0\<newline>'']\<rparr>"

definition fail_env :: cmd_env where
  "fail_env = \<lparr>conn = cenv_exited, write_exc = None, reads = [Line ''CMD_FINISHED_1\<newline>'']\<rparr>"

text \<open>
  A GPU host; a round in which every command succeeds, with the snapshot it gives; a
  round in which every command fails by its exit code; and a round in which writing the
  first command raises and the reconnect that follows finds the new process exited.
\<close>

definition m0 :: machine where
  "m0 = \<lparr>host = ''h'', username = ''u'', mtype = ''GPU'', key = None\<rparr>"

definition ce_ok :: "rat \<Rightarrow> rat cycle_env" where
  "ce_ok t = \<lparr>cpu_env = ok_env [''12.5\<newline>''],
     mem_env = ok_env [''8589934592 2147483648\<newline>''],
     dev_env = ok_env [''0, 1024, 8192, 50, 60, 120.5\<newline>''],
     proc_env = ok_env [''PID USER %CPU %MEM COMMAND\<newline>'', ''1 root 0.5 0.1 init\<newline>''],
     now = t\<rparr>"

definition snap_ok :: "rat \<Rightarrow> rat snapshot" where
  "snap_ok t = \<lparr>cpu = 25 / 2, mem = \<lparr>percent = 25, used_gb = 2, total_gb = 8\<rparr>,
        devices = [\<lparr>dev_id = 0, used_mem = 1024, total_mem = 8192, util = 50, temp = 60,
                     power_w = FloatV (241 / 2), dev_type = ''GPU''\<rparr>],
        processes = [[''1'', ''root'', ''0.5'', ''0.1'', ''init'']],
        timestamp = t\<rparr>"

definition ce_fail :: "rat \<Rightarrow> rat cycle_env" where
  "ce_fail t = \<lparr>cpu_env = fail_env, mem_env = fail_env, dev_env = fail_env,
     proc_env = fail_env, now = t\<rparr>"

definition ce_broken :: "rat \<Rightarrow> rat cycle_env" where
  "ce_broken t = (ce_ok t)\<lparr>
     cpu_env := \<lparr>conn = cenv_exited, write_exc = Some OSError, reads = []\<rparr>,
     mem_env := \<lparr>conn = cenv_exited, write_exc = None, reads = []\<rparr>\<rparr>"



text \<open>
  A way of drawing a present snapshot that writes the host name and reports five rows,
  and a dashboard of two machines on a window of 24 rows and 80 columns whose store holds
  a snapshot for one host and \<open>None\<close> for the other.
\<close>

definition env0 :: "rat draw_env" where
  "env0 = \<lparr>cyan = 6, clock = ''12:00:00'',
     draw_panel = (\<lambda>scr r c w h i. Inr (scr\<lparr>writes := writes scr @ [(r, c, h, 0)]\<rparr>, 5))\<rparr>"

definition dash0 :: "rat dashboard" where
  "dash0 = \<lparr>machines = [m0, m0\<lparr>host := ''g''\<rparr>],
     dstore = [(''h'', Some (snap_ok 1)), (''g'', None)],
     margin = 2, max_devices = 8, last_win_size = (0, 0),
     stdscr = \<lparr>max_y = 24, max_x = 80, writes = []\<rparr>\<rparr>"

section \<open>The remote session: results\<close>

text \<open>
  The read loop on a run of lines free of the sentinel followed by a sentinel line, and
  on reads that never show the sentinel before the deadline.
\<close>

lemma read_loop_sentinel:
  assumes "\<forall>p\<in>set pre. \<not> isin ''CMD_FINISHED_'' p" and "isin ''CMD_FINISHED_'' l"
  shows "read_loop (map Line pre @ Line l # rest) out =
         Ret (out @ map py_strip (filter (\<lambda>p. p \<noteq> []) pre), exit_code_of l)"
  using assms
proof (induction pre arbitrary: out)
  case Nil
  then have "l \<noteq> []" by auto
  with Nil show ?case by simp
next
  case (Cons p pre)
  then show ?case by simp
qed

lemma read_loop_no_sentinel:
  assumes "\<forall>ev\<in>set evs. \<exists>l. ev = Line l \<and> \<not> isin ''CMD_FINISHED_'' l"
  shows "read_loop evs out =
         Ret (out @ map py_strip (filter (\<lambda>p. p \<noteq> []) (map (\<lambda>ev. case ev of Line l \<Rightarrow> l | _ \<Rightarrow> []) evs)), - 1)"
  using assms
proof (induction evs arbitrary: out)
  case Nil
  show ?case by simp
next
  case (Cons ev evs)
  then obtain l where "ev = Line l" "\<not> isin ''CMD_FINISHED_'' l" by auto
  with Cons show ?case by simp
qed

text \<open>
  Claim C1.  Whenever the command is sent (the session is connected, or the reconnect
  succeeds) and the read loop meets a sentinel line whose exit-code part is not the
  integer 0 (an unreadable part counts as \<open>-1\<close>), \<^verbatim>\<open>get_remote_info\<close> returns the empty
  string, whatever lines came before the sentinel, and the last thing it does is print
  the failure with that exit code.
\<close>

theorem get_remote_info_nonzero_exit:
  assumes "connected_flag s \<or> snd (ssh_connect (conn env) s) = Ret True"
    and "write_exc env = None"
    and "reads env = map Line pre @ Line l # rest"
    and "\<forall>p\<in>set pre. \<not> isin ''CMD_FINISHED_'' p"
    and "isin ''CMD_FINISHED_'' l"
    and "py_int (py_strip (last (py_split l ''_''))) \<noteq> Some 0"
  shows "snd (get_remote_info env cmd s) = Ret []
       \<and> last (trace (fst (get_remote_info env cmd s)))
           = Print (CommandFailed
               (case py_int (py_strip (last (py_split l ''_''))) of Some c \<Rightarrow> c | None \<Rightarrow> - 1) cmd)"
proof -
  have code: "exit_code_of l \<noteq> 0"
    using assms(6) by (auto simp: exit_code_of_def split: option.splits)
  have rl: "read_loop (reads env) [] =
      Ret (map py_strip (filter (\<lambda>p. p \<noteq> []) pre), exit_code_of l)"
    using read_loop_sentinel [OF assms(4,5), of rest "[]"] assms(3) by simp
  have rc: "\<And>t. snd (run_command env cmd t) = Ret []
      \<and> last (trace (fst (run_command env cmd t))) = Print (CommandFailed (exit_code_of l) cmd)"
    using code rl assms(2) by (simp add: run_command_def Let_def act_def)
  show ?thesis
  proof (cases "connected_flag s")
    case True
    then show ?thesis using rc by (simp add: get_remote_info_def exit_code_of_def)
  next
    case False
    with assms(1) have "snd (ssh_connect (conn env) s) = Ret True" by simp
    then obtain s' where "ssh_connect (conn env) s = (s', Ret True)"
      by (cases "ssh_connect (conn env) s") auto
    with False show ?thesis using rc by (simp add: get_remote_info_def exit_code_of_def)
  qed
qed

theorem get_remote_info_nonzero_exit_witness:
  "snd (get_remote_info
          \<lparr>conn = cenv_ok, write_exc = None,
           reads = [Line ''out1\<newline>'', Line ''out2\<newline>'', Line ''CMD_FINISHED_1\<newline>'']\<rparr>
          ''cmd'' s_conn) = Ret []
   \<and> last (trace (fst (get_remote_info
          \<lparr>conn = cenv_ok, write_exc = None,
           reads = [Line ''out1\<newline>'', Line ''out2\<newline>'', Line ''CMD_FINISHED_1\<newline>'']\<rparr>
          ''cmd'' s_conn))) = Print (CommandFailed 1 ''cmd'')
   \<and> snd (get_remote_info
          \<lparr>conn = cenv_ok, write_exc = None,
           reads = [Line ''out1\<newline>'', Line ''CMD_FINISHED_x\<newline>'']\<rparr>
          ''cmd'' s_conn) = Ret []
   \<and> last (trace (fst (get_remote_info
          \<lparr>conn = cenv_ok, write_exc = None,
           reads = [Line ''out1\<newline>'', Line ''CMD_FINISHED_x\<newline>'']\<rparr>
          ''cmd'' s_conn))) = Print (CommandFailed (- 1) ''cmd'')"
proof -
  let ?e1 = "\<lparr>conn = cenv_ok, write_exc = None,
           reads = [Line ''out1\<newline>'', Line ''out2\<newline>'', Line ''CMD_FINISHED_1\<newline>'']\<rparr>"
  let ?e2 = "\<lparr>conn = cenv_ok, write_exc = None,
           reads = [Line ''out1\<newline>'', Line ''CMD_FINISHED_x\<newline>'']\<rparr>"
  have c: "connected_flag s_conn \<or> snd (ssh_connect (conn ?e1) s_conn) = Ret True"
          "connected_flag s_conn \<or> snd (ssh_connect (conn ?e2) s_conn) = Ret True"
    by (simp_all add: s_conn_def)
  have w: "write_exc ?e1 = None" "write_exc ?e2 = None" by simp_all
  have r1: "reads ?e1 = map Line [''out1\<newline>'', ''out2\<newline>''] @ Line ''CMD_FINISHED_1\<newline>'' # []"
    by simp
  have r2: "reads ?e2 = map Line [''out1\<newline>''] @ Line ''CMD_FINISHED_x\<newline>'' # []"
    by simp
  have p1: "\<forall>p\<in>set [''out1\<newline>'', ''out2\<newline>'']. \<not> isin ''CMD_FINISHED_'' p" by code_simp
  have p2: "\<forall>p\<in>set [''out1\<newline>'']. \<not> isin ''CMD_FINISHED_'' p" by code_simp
  have i1: "isin ''CMD_FINISHED_'' ''CMD_FINISHED_1\<newline>''" by code_simp
  have i2: "isin ''CMD_FINISHED_'' ''CMD_FINISHED_x\<newline>''" by code_simp
  have v1: "py_int (py_strip (last (py_split ''CMD_FINISHED_1\<newline>'' ''_''))) = Some 1" by code_simp
  have v2: "py_int (py_strip (last (py_split ''CMD_FINISHED_x\<newline>'' ''_''))) = None" by code_simp
  have n1: "py_int (py_strip (last (py_split ''CMD_FINISHED_1\<newline>'' ''_''))) \<noteq> Some 0"
    by (simp add: v1)
  have n2: "py_int (py_strip (last (py_split ''CMD_FINISHED_x\<newline>'' ''_''))) \<noteq> Some 0"
    by (simp add: v2)
  from get_remote_info_nonzero_exit [OF c(1) w(1) r1 p1 i1 n1, of "''cmd''"]
       get_remote_info_nonzero_exit [OF c(2) w(2) r2 p2 i2 n2, of "''cmd''"]
  show ?thesis by (simp add: v1 v2)
qed

lemma run_command_first_write:
  "\<exists>tr. trace (fst (run_command env cmd s)) = trace s @ Write (full_cmd cmd) # tr"
  by (auto simp: run_command_def Let_def act_def split: option.splits outcome.splits)

text \<open>
  Claim C2, as the code has it.  When the deadline passes on a connected session without
  a sentinel line having been read, \<^verbatim>\<open>get_remote_info\<close> reports a command failure with
  exit code \<open>-1\<close> and returns the empty string; the session stays marked connected, so
  the first action of the next call is to write its command, with no reconnect.
\<close>

theorem get_remote_info_timeout:
  assumes "connected_flag s" and "write_exc env = None"
    and "\<forall>ev\<in>set (reads env). \<exists>l. ev = Line l \<and> \<not> isin ''CMD_FINISHED_'' l"
  shows "get_remote_info env cmd s =
           (s\<lparr>trace := trace s @ [Write (full_cmd cmd), Print (CommandFailed (- 1) cmd)]\<rparr>, Ret [])
       \<and> connected_flag (fst (get_remote_info env cmd s))
       \<and> (\<exists>tr. trace (fst (get_remote_info env' cmd' (fst (get_remote_info env cmd s))))
               = trace (fst (get_remote_info env cmd s)) @ Write (full_cmd cmd') # tr)"
proof -
  from read_loop_no_sentinel [OF assms(3), of "[]"]
  obtain out where rl: "read_loop (reads env) [] = Ret (out, - 1)" by simp
  have a: "get_remote_info env cmd s =
           (s\<lparr>trace := trace s @ [Write (full_cmd cmd), Print (CommandFailed (- 1) cmd)]\<rparr>, Ret [])"
    using assms(1,2) rl by (simp add: get_remote_info_def run_command_def Let_def act_def)
  have b: "connected_flag (fst (get_remote_info env cmd s))"
    using a assms(1) by simp
  have "get_remote_info env' cmd' (fst (get_remote_info env cmd s))
      = run_command env' cmd' (fst (get_remote_info env cmd s))"
    using b by (simp add: get_remote_info_def)
  then show ?thesis
    using a b run_command_first_write [of env' cmd' "fst (get_remote_info env cmd s)"] by simp
qed

theorem get_remote_info_timeout_witness:
  "get_remote_info \<lparr>conn = cenv_ok, write_exc = None, reads = [Line ''partial\<newline>'', Line []]\<rparr>
       ''cmd'' s_conn
     = (\<lparr>connected_flag = True, has_ssh = True,
         trace = [Write (full_cmd ''cmd''), Print (CommandFailed (- 1) ''cmd'')]\<rparr>, Ret [])"
proof -
  let ?e = "\<lparr>conn = cenv_ok, write_exc = None, reads = [Line ''partial\<newline>'', Line []]\<rparr>"
  have c: "connected_flag s_conn" by (simp add: s_conn_def)
  have w: "write_exc ?e = None" by simp
  have i: "\<not> isin ''CMD_FINISHED_'' ''partial\<newline>''" "\<not> isin ''CMD_FINISHED_'' []" by code_simp+
  have r: "\<forall>ev\<in>set (reads ?e). \<exists>l. ev = Line l \<and> \<not> isin ''CMD_FINISHED_'' l"
    using i by simp
  from get_remote_info_timeout [OF c w r, of "''cmd''"]
  show ?thesis by (simp add: s_conn_def)
qed

text \<open>
  The claim as the specification words it fails: after a call that saw no sentinel the
  session is still marked connected, and the next call starts no process.
\<close>

theorem get_remote_info_timeout_counterexample:
  "connected_flag (fst (get_remote_info
        \<lparr>conn = cenv_ok, write_exc = None, reads = [Line ''partial\<newline>'']\<rparr> ''cmd'' s_conn))
   \<and> Popen \<notin> set (trace (fst (get_remote_info
        \<lparr>conn = cenv_ok, write_exc = None, reads = [Line ''CMD_FINISHED_0\<newline>'']\<rparr> ''next''
        (fst (get_remote_info
          \<lparr>conn = cenv_ok, write_exc = None, reads = [Line ''partial\<newline>'']\<rparr> ''cmd'' s_conn)))))"
  by code_simp

section \<open>The poller: results\<close>

text \<open>
  When the first connection attempt returns \<open>False\<close>, \<^verbatim>\<open>monitor\<close> publishes one \<open>None\<close>
  event and returns.  This needs \<^verbatim>\<open>self.ssh.stderr\<close> to be a pipe.
\<close>

lemma monitor_connect_false:
  assumes "popen_exc cenv = None" and "exited cenv" and "stderr_attr cenv = Some err"
  shows "snd (monitor F m cenv ces p) = Returned
       \<and> published (fst (monitor F m cenv ces p)) = published p @ [(host m, None)]"
  using assms by (simp add: monitor_def ssh_connect_def Let_def)

text \<open>
  Claim C4 against the code.  With the process object as \<^verbatim>\<open>ssh_connect\<close> creates it, a
  first connection attempt whose process has exited raises AttributeError at
  \<^verbatim>\<open>self.ssh.stderr.read()\<close>; the exception leaves \<^verbatim>\<open>monitor\<close>, the thread dies and nothing
  is published.
\<close>

theorem monitor_first_connect_exited:
  assumes "popen_exc cenv = None" and "exited cenv" and "popen_as_written cenv"
  shows "snd (monitor F m cenv ces p) = Died AttributeError
       \<and> published (fst (monitor F m cenv ces p)) = published p"
  using assms by (simp add: monitor_def ssh_connect_def Let_def popen_as_written_def)

theorem monitor_first_connect_exited_witness:
  "snd (monitor dec_ops m0 cenv_exited [ce_ok 1] \<lparr>sess = s_new, published = []\<rparr>)
     = Died AttributeError
   \<and> published (fst (monitor dec_ops m0 cenv_exited [ce_ok 1] \<lparr>sess = s_new, published = []\<rparr>))
     = []"
proof -
  have a: "popen_exc cenv_exited = None" "exited cenv_exited" "popen_as_written cenv_exited"
    by (simp_all add: cenv_exited_def popen_as_written_def)
  from monitor_first_connect_exited [OF a, of dec_ops m0 "[ce_ok 1]" "\<lparr>sess = s_new, published = []\<rparr>"]
  show ?thesis by simp
qed

text \<open>
  A command that fails by its exit code or by the deadline on a connected session
  returns the empty string and leaves the session connected; the parsers on the empty
  string give the default values.
\<close>

lemma get_remote_info_fails:
  assumes "connected_flag s" and "cmd_fails env"
  shows "\<exists>s'. get_remote_info env cmd s = (s', Ret []) \<and> connected_flag s'"
  using assms
  by (auto simp: cmd_fails_def get_remote_info_def run_command_def Let_def act_def
           split: outcome.splits prod.splits)

lemma parse_mem_empty: "parse_mem F [] = mem_default F"
  by (simp add: parse_mem_def py_strip_def py_split_ws_def)

lemma parse_gpu_empty: "parse_gpu F [] = []"
  by (simp add: parse_gpu_def py_split_def)

lemma parse_xpu_empty: "parse_xpu [] s = (s, [])"
  by (simp add: parse_xpu_def py_split_def py_strip_def py_split_ws_def)

lemma processes_empty: "take 5 (processes_loop [] (py_split [] ''\<newline>'')) = []"
  by (simp add: py_split_def py_strip_def)

lemma collect_data_all_fail:
  assumes "connected_flag s" and "f_parse F [] = None"
    and "cmd_fails (cpu_env ce)" and "cmd_fails (mem_env ce)"
    and "cmd_fails (dev_env ce)" and "cmd_fails (proc_env ce)"
  shows "\<exists>s'. collect_data F m ce s = (s', Ret (default_snapshot F (now ce))) \<and> connected_flag s'"
proof -
  from get_remote_info_fails [OF assms(1,3)] obtain s1 where
    c1: "get_remote_info (cpu_env ce) cpu_cmd s = (s1, Ret [])" "connected_flag s1" by blast
  from get_remote_info_fails [OF c1(2) assms(4)] obtain s2 where
    c2: "get_remote_info (mem_env ce) mem_cmd s1 = (s2, Ret [])" "connected_flag s2" by blast
  from get_remote_info_fails [OF c2(2) assms(5)] obtain s3 where
    c3: "get_remote_info (dev_env ce) gpu_cmd s2 = (s3, Ret [])" "connected_flag s3" by blast
  from get_remote_info_fails [OF c2(2) assms(5)] obtain t3 where
    d3: "get_remote_info (dev_env ce) xpu_cmd s2 = (t3, Ret [])" "connected_flag t3" by blast
  from get_remote_info_fails [OF c3(2) assms(6)] obtain s4 where
    c4: "get_remote_info (proc_env ce) ps_cmd s3 = (s4, Ret [])" "connected_flag s4" by blast
  from get_remote_info_fails [OF d3(2) assms(6)] obtain t4 where
    d4: "get_remote_info (proc_env ce) ps_cmd t3 = (t4, Ret [])" "connected_flag t4" by blast
  show ?thesis
    using c1 c2 c3 d3 c4 d4 assms(2)
    by (simp add: collect_data_def bnd_def get_cpu_info_def get_mem_info_def get_gpu_info_def
          get_xpu_info_def get_processes_def parse_mem_empty parse_gpu_empty parse_xpu_empty
          processes_empty default_snapshot_def py_strip_def)
qed

text \<open>
  Claim C3, as the code has it.  A round of the polling loop in which every remote
  command is sent and fails (by its exit code or by the deadline) publishes a present
  snapshot holding the default values, and the loop goes on with the next round; a round
  out of which an exception escapes publishes one \<open>None\<close> event and ends the loop, so that
  no later round is run.  The first part needs \<^verbatim>\<open>float("")\<close> to raise, as it does in
  Python.  Both parts hold from every state of the thread, after successful rounds as
  well.
\<close>

theorem monitor_loop_failing_round:
  "(connected_flag (sess p) \<and> f_parse F [] = None \<and> cmd_fails (cpu_env ce)
      \<and> cmd_fails (mem_env ce) \<and> cmd_fails (dev_env ce) \<and> cmd_fails (proc_env ce)
    \<longrightarrow> (\<exists>s'. connected_flag s' \<and>
          monitor_loop F m (ce # ces) p =
            monitor_loop F m ces
              \<lparr>sess = s', published = published p @ [(host m, Some (default_snapshot F (now ce)))]\<rparr>))
   \<and> (snd (collect_data F m ce (sess p)) = Exc e
    \<longrightarrow> monitor_loop F m (ce # ces) p =
          (\<lparr>sess = fst (collect_data F m ce (sess p)),
            published = published p @ [(host m, None)]\<rparr>, Returned))"
proof (intro conjI impI)
  assume "connected_flag (sess p) \<and> f_parse F [] = None \<and> cmd_fails (cpu_env ce)
      \<and> cmd_fails (mem_env ce) \<and> cmd_fails (dev_env ce) \<and> cmd_fails (proc_env ce)"
  then obtain s' where "collect_data F m ce (sess p) = (s', Ret (default_snapshot F (now ce)))"
      "connected_flag s'"
    using collect_data_all_fail [of "sess p" F ce m] by blast
  then show "\<exists>s'. connected_flag s' \<and>
          monitor_loop F m (ce # ces) p =
            monitor_loop F m ces
              \<lparr>sess = s', published = published p @ [(host m, Some (default_snapshot F (now ce)))]\<rparr>"
    by auto
next
  assume "snd (collect_data F m ce (sess p)) = Exc e"
  then show "monitor_loop F m (ce # ces) p =
          (\<lparr>sess = fst (collect_data F m ce (sess p)),
            published = published p @ [(host m, None)]\<rparr>, Returned)"
    by (cases "collect_data F m ce (sess p)") simp
qed

theorem monitor_loop_failing_round_witness:
  "(\<exists>s'. connected_flag s' \<and>
      monitor_loop dec_ops m0 [ce_fail 2, ce_ok 3] \<lparr>sess = s_conn, published = [(''h'', Some (snap_ok 1))]\<rparr>
        = monitor_loop dec_ops m0 [ce_ok 3]
            \<lparr>sess = s', published = [(''h'', Some (snap_ok 1)), (''h'', Some (default_snapshot dec_ops 2))]\<rparr>)
   \<and> snd (monitor_loop dec_ops m0 [ce_broken 2, ce_ok 3]
             \<lparr>sess = s_conn, published = [(''h'', Some (snap_ok 1))]\<rparr>) = Returned
   \<and> published (fst (monitor_loop dec_ops m0 [ce_broken 2, ce_ok 3]
             \<lparr>sess = s_conn, published = [(''h'', Some (snap_ok 1))]\<rparr>))
       = [(''h'', Some (snap_ok 1)), (''h'', None)]"
proof -
  let ?p = "\<lparr>sess = s_conn, published = [(''h'', Some (snap_ok 1))]\<rparr>"
  have h1: "connected_flag (sess ?p) \<and> f_parse dec_ops [] = None \<and> cmd_fails (cpu_env (ce_fail 2))
      \<and> cmd_fails (mem_env (ce_fail 2)) \<and> cmd_fails (dev_env (ce_fail 2))
      \<and> cmd_fails (proc_env (ce_fail 2))"
    by code_simp
  have h2: "snd (collect_data dec_ops m0 (ce_broken 2) (sess ?p)) = Exc AttributeError"
    by code_simp
  have hm: "host m0 = ''h''" "now (ce_fail 2) = 2" by (simp_all add: m0_def ce_fail_def)
  from monitor_loop_failing_round [where p = ?p and F = dec_ops and ce = "ce_fail 2" and m = m0
      and ces = "[ce_ok 3]" and e = AttributeError]
  have "\<exists>s'. connected_flag s' \<and>
          monitor_loop dec_ops m0 (ce_fail 2 # [ce_ok 3]) ?p =
            monitor_loop dec_ops m0 [ce_ok 3]
              \<lparr>sess = s', published = published ?p @ [(host m0, Some (default_snapshot dec_ops (now (ce_fail 2))))]\<rparr>"
    using h1 by blast
  moreover
  from monitor_loop_failing_round [where p = ?p and F = dec_ops and ce = "ce_broken 2" and m = m0
      and ces = "[ce_ok 3]" and e = AttributeError]
  have "monitor_loop dec_ops m0 (ce_broken 2 # [ce_ok 3]) ?p =
          (\<lparr>sess = fst (collect_data dec_ops m0 (ce_broken 2) (sess ?p)),
            published = published ?p @ [(host m0, None)]\<rparr>, Returned)"
    using h2 by blast
  ultimately show ?thesis by (simp add: hm)
qed

text \<open>
  The claim as the specification words it fails: after a successful round, a round that
  publishes the absent event is the last one, and the round that would follow is never
  run.
\<close>

theorem monitor_loop_continues_counterexample:
  "snd (monitor_loop dec_ops m0 [ce_ok 1, ce_broken 2, ce_ok 3] \<lparr>sess = s_conn, published = []\<rparr>)
     = Returned
   \<and> published (fst (monitor_loop dec_ops m0 [ce_ok 1, ce_broken 2, ce_ok 3]
                      \<lparr>sess = s_conn, published = []\<rparr>))
     = [(''h'', Some (snap_ok 1)), (''h'', None)]"
  by code_simp



























section \<open>The GPU parser: results\<close>

lemma split_from_no_sep: "\<not> isin sep s \<Longrightarrow> split_from sep cur s = [cur @ s]"
  by (induction sep cur s rule: split_from.induct) auto

lemma length_six: "length fs = 6 \<Longrightarrow> \<exists>a b c d e f. fs = [a, b, c, d, e, f]"
  by (auto simp: length_Suc_conv eval_nat_numeral)

text \<open>
  One round of the loop either appends the record of the line or leaves the list alone;
  the guard on empty lines and lines without a separator never drops a well-formed one.
\<close>

lemma parse_gpu_loop_step:
  "parse_gpu_loop F gpus (line # rest) =
     parse_gpu_loop F
       (gpus @ (if well_formed_gpu_line F line then [gpu_record F line] else [])) rest"
proof (cases "line = [] \<or> \<not> isin '', '' line")
  case True
  then have "py_split line '', '' = [line]"
    by (auto simp: py_split_def split_from_no_sep)
  then have "\<not> well_formed_gpu_line F line"
    by (simp add: well_formed_gpu_line_def gpu_fields_def)
  with True show ?thesis by simp
next
  case False
  show ?thesis
  proof (cases "length (py_split line '', '') = 6")
    case True
    then obtain a b c d e f where "py_split line '', '' = [a, b, c, d, e, f]"
      using length_six by blast
    with False show ?thesis
      by (auto simp: well_formed_gpu_line_def gpu_fields_def gpu_record_def
               split: option.splits)
  next
    case ne: False
    then have "\<not> well_formed_gpu_line F line"
      by (simp add: well_formed_gpu_line_def gpu_fields_def Let_def)
    with False ne show ?thesis
      by (auto split: list.splits)
  qed
qed

lemma parse_gpu_loop_eq:
  "parse_gpu_loop F gpus ls =
     gpus @ map (gpu_record F) (filter (well_formed_gpu_line F) ls)"
proof (induction ls arbitrary: gpus)
  case Nil
  show ?case by simp
next
  case (Cons l ls)
  show ?case
    by (subst parse_gpu_loop_step) (simp add: Cons.IH)
qed

text \<open>
  Claim C5.  For every output text, the parser returns, in the order of the lines, the
  record of each well-formed line and nothing else: a line that does not have six
  fields, or has a field that \<^verbatim>\<open>int\<close> or \<^verbatim>\<open>float\<close> rejects, contributes no record and
  changes nothing for the other lines, and no input makes the parser raise.
\<close>

theorem parse_gpu_well_formed_lines:
  "parse_gpu F output =
     map (gpu_record F) (filter (well_formed_gpu_line F) (py_split output ''\<newline>''))"
  by (simp add: parse_gpu_def parse_gpu_loop_eq)

text \<open>
  The line of the specification's scenario, alone and among malformed lines: a line with
  two fields, one whose power is \<^verbatim>\<open>[N/A]\<close>, and an empty one.
\<close>

theorem parse_gpu_well_formed_lines_witness:
  "parse_gpu dec_ops ''0, 1024, 8192, 50, 60, 120.5'' =
     [\<lparr>dev_id = 0, used_mem = 1024, total_mem = 8192, util = 50, temp = 60,
       power_w = FloatV (241 / 2), dev_type = ''GPU''\<rparr>]
   \<and> parse_gpu dec_ops
       ''bad, line\<newline>0, 1024, 8192, 50, 60, 120.5\<newline>1, 2, 3, 4, 5, [N/A]\<newline>\<newline>2, 1, 2, 3, 4, 5''
     = [\<lparr>dev_id = 0, used_mem = 1024, total_mem = 8192, util = 50, temp = 60,
         power_w = FloatV (241 / 2), dev_type = ''GPU''\<rparr>,
        \<lparr>dev_id = 2, used_mem = 1, total_mem = 2, util = 3, temp = 4,
         power_w = FloatV 5, dev_type = ''GPU''\<rparr>]"
proof -
  have a: "map (gpu_record dec_ops) (filter (well_formed_gpu_line dec_ops)
        (py_split ''0, 1024, 8192, 50, 60, 120.5'' ''\<newline>''))
      = [\<lparr>dev_id = 0, used_mem = 1024, total_mem = 8192, util = 50, temp = 60,
          power_w = FloatV (241 / 2), dev_type = ''GPU''\<rparr>]"
    by code_simp
  have b: "map (gpu_record dec_ops) (filter (well_formed_gpu_line dec_ops)
        (py_split
          ''bad, line\<newline>0, 1024, 8192, 50, 60, 120.5\<newline>1, 2, 3, 4, 5, [N/A]\<newline>\<newline>2, 1, 2, 3, 4, 5''
          ''\<newline>''))
      = [\<lparr>dev_id = 0, used_mem = 1024, total_mem = 8192, util = 50, temp = 60,
          power_w = FloatV (241 / 2), dev_type = ''GPU''\<rparr>,
         \<lparr>dev_id = 2, used_mem = 1, total_mem = 2, util = 3, temp = 4,
          power_w = FloatV 5, dev_type = ''GPU''\<rparr>]"
    by code_simp
  show ?thesis
    using a b
      parse_gpu_well_formed_lines [of dec_ops "''0, 1024, 8192, 50, 60, 120.5''"]
      parse_gpu_well_formed_lines [of dec_ops
        "''bad, line\<newline>0, 1024, 8192, 50, 60, 120.5\<newline>1, 2, 3, 4, 5, [N/A]\<newline>\<newline>2, 1, 2, 3, 4, 5''"]
    by simp
qed

section \<open>Layout parameters: results\<close>

lemma py_max_Max: "xs \<noteq> [] \<Longrightarrow> py_max xs = Inr (Max (set xs))"
  by (cases xs) (simp_all add: Max.set_eq_fold [symmetric])

text \<open>
  Claim C8, as the code has it.  For every terminal width, every margin and every
  non-empty list of configured hosts for which the divisor \<open>min_col_width + margin\<close> is
  not zero, the layout takes as minimum column width the larger of (length of the
  longest host identifier + 6) and 60, and as column count
  \<open>max 1 ((terminal_width - margin) div (min_col_width + margin))\<close>.
\<close>

theorem layout_params_columns:
  assumes "ms \<noteq> []"
    and "w = max (Max (set (map (\<lambda>m. int (length (host m))) ms)) + 6) 60"
    and "w + mg \<noteq> 0"
  shows "\<exists>cw. layout_params mx mg ms = Inr (w, max 1 ((mx - mg) div (w + mg)), cw)"
proof -
  from assms(1) have "map (\<lambda>m. int (length (host m))) ms \<noteq> []" by simp
  then have "py_max (map (\<lambda>m. int (length (host m))) ms)
      = Inr (Max (set (map (\<lambda>m. int (length (host m))) ms)))"
    by (rule py_max_Max)
  with assms(2,3) show ?thesis
    by (simp add: layout_params_def Let_def)
qed

theorem layout_params_columns_witness:
  "layout_params 200 2 [\<lparr>host = ''10.0.0.1'', username = ''u'', mtype = ''GPU'', key = None\<rparr>]
     = Inr (60, 3, 60)"
proof -
  let ?ms = "[\<lparr>host = ''10.0.0.1'', username = ''u'', mtype = ''GPU'', key = None\<rparr>]"
  have a: "?ms \<noteq> []" by simp
  have b: "(60::int) = max (Max (set (map (\<lambda>m. int (length (host m))) ?ms)) + 6) 60" by simp
  have c: "(60::int) + 2 \<noteq> 0" by simp
  from layout_params_columns [OF a b c, of 200]
  obtain cw where d: "layout_params 200 2 ?ms = Inr (60, max 1 ((200 - 2) div (60 + 2)), cw)"
    by blast
  have "layout_params 200 2 ?ms = Inr (60, 3, 60)"
    by (simp add: layout_params_def Let_def)
  with d show ?thesis by simp
qed

text \<open>
  The claim as the specification words it, for every list of hosts and every margin,
  fails: on an empty list of hosts \<^verbatim>\<open>max\<close> raises ValueError, and a margin that cancels
  the minimum column width makes the division raise.
\<close>

theorem layout_params_counterexample:
  "layout_params 80 2 [] = Inl ValueError \<and>
   layout_params 80 (- 60) [\<lparr>host = ''a'', username = ''u'', mtype = ''GPU'', key = None\<rparr>]
     = Inl ZeroDivisionError"
  by (simp add: layout_params_def Let_def)

section \<open>Clipped writes: results\<close>

text \<open>
  Claim C9, as the code has it.  A write request \<open>(y, x, text)\<close> whose row or column is at
  or beyond the window's size returns at once, for every text, with the window as it
  was.  A request whose coordinates and attribute fit the C types of the binding, and
  whose text holds no NUL character in the part that would be written, returns normally:
  inside the window it writes the text cut to the width that remains right of \<open>x\<close>, and
  left of or above the window it writes nothing.
\<close>

theorem safe_addstr_clipped:
  "(max_y scr \<le> y \<or> max_x scr \<le> x \<longrightarrow> safe_addstr scr y x txt attr = Inr scr)
   \<and> (c_int y \<and> c_int x \<and> c_long attr
        \<and> CHR 0x00 \<notin> set (take (nat (max_x scr - x)) txt)
      \<longrightarrow> safe_addstr scr y x txt attr =
            Inr (if 0 \<le> y \<and> y < max_y scr \<and> 0 \<le> x \<and> x < max_x scr
                 then scr\<lparr>writes :=
                        writes scr @ [(y, x, take (nat (max_x scr - x)) txt, attr)]\<rparr>
                 else scr))"
  by (simp add: safe_addstr_def curses_addstr_def py_slice_to_def)

theorem safe_addstr_clipped_witness:
  "safe_addstr \<lparr>max_y = 24, max_x = 80, writes = []\<rparr> 30 0 [CHR ''a'', CHR 0x00] 6
     = Inr \<lparr>max_y = 24, max_x = 80, writes = []\<rparr>
   \<and> safe_addstr \<lparr>max_y = 24, max_x = 80, writes = []\<rparr> 0 78 ''abcd'' 6
     = Inr \<lparr>max_y = 24, max_x = 80, writes = [(0, 78, ''ab'', 6)]\<rparr>
   \<and> safe_addstr \<lparr>max_y = 24, max_x = 80, writes = []\<rparr> 0 (- 1) ''abcd'' 6
     = Inr \<lparr>max_y = 24, max_x = 80, writes = []\<rparr>"
proof -
  let ?scr = "\<lparr>max_y = 24, max_x = 80, writes = []\<rparr>"
  have a: "max_y ?scr \<le> 30 \<or> max_x ?scr \<le> 0" by simp
  have b: "c_int 0 \<and> c_int 78 \<and> c_long 6
      \<and> CHR 0x00 \<notin> set (take (nat (max_x ?scr - 78)) ''abcd'')"
    by (simp add: c_int_def c_long_def)
  have c: "c_int 0 \<and> c_int (- 1) \<and> c_long 6
      \<and> CHR 0x00 \<notin> set (take (nat (max_x ?scr - (- 1))) ''abcd'')"
    by (simp add: c_int_def c_long_def)
  have t: "take (nat (max_x ?scr - 78)) ''abcd'' = ''ab''" by (simp add: eval_nat_numeral)
  from safe_addstr_clipped [of ?scr 30 0 "[CHR ''a'', CHR 0x00]" 6] a
  have 1: "safe_addstr ?scr 30 0 [CHR ''a'', CHR 0x00] 6 = Inr ?scr" by blast
  from safe_addstr_clipped [of ?scr 0 78 "''abcd''" 6] b
  have "safe_addstr ?scr 0 78 ''abcd'' 6 =
      Inr (if (0::int) \<le> 0 \<and> 0 < max_y ?scr \<and> (0::int) \<le> 78 \<and> 78 < max_x ?scr
           then ?scr\<lparr>writes := writes ?scr @ [(0, 78, take (nat (max_x ?scr - 78)) ''abcd'', 6)]\<rparr>
           else ?scr)" by blast
  then have 2: "safe_addstr ?scr 0 78 ''abcd'' 6
      = Inr \<lparr>max_y = 24, max_x = 80, writes = [(0, 78, ''ab'', 6)]\<rparr>"
    by (simp add: t)
  from safe_addstr_clipped [of ?scr 0 "- 1" "''abcd''" 6] c
  have "safe_addstr ?scr 0 (- 1) ''abcd'' 6 =
      Inr (if (0::int) \<le> 0 \<and> 0 < max_y ?scr \<and> (0::int) \<le> - 1 \<and> - 1 < max_x ?scr
           then ?scr\<lparr>writes := writes ?scr @ [(0, - 1, take (nat (max_x ?scr - (- 1))) ''abcd'', 6)]\<rparr>
           else ?scr)" by blast
  then have 3: "safe_addstr ?scr 0 (- 1) ''abcd'' 6 = Inr ?scr" by simp
  from 1 2 3 show ?thesis by simp
qed

text \<open>
  The claim as the specification words it, for every request and with no error in any
  case, fails: a text with a NUL character inside the window makes \<^verbatim>\<open>addstr\<close> raise
  ValueError, and a row below the range of a C \<^verbatim>\<open>int\<close> makes it raise OverflowError;
  \<^verbatim>\<open>safe_addstr\<close> catches neither.
\<close>

theorem safe_addstr_counterexample:
  "safe_addstr \<lparr>max_y = 24, max_x = 80, writes = []\<rparr> 0 0 [CHR ''a'', CHR 0x00, CHR ''b''] 0
     = Inl ValueError
   \<and> safe_addstr \<lparr>max_y = 24, max_x = 80, writes = []\<rparr> (- (2 ^ 31) - 1) 0 ''ab'' 0
     = Inl OverflowError"
  by (simp add: safe_addstr_def curses_addstr_def py_slice_to_def c_int_def c_long_def)

section \<open>The store: results\<close>

lemma drain_loop_data:
  "map_of (data (drain_loop st q)) h =
     (if filter (\<lambda>e. fst (fst e) = h) q = [] then map_of (data st) h
      else Some (snd (fst (last (filter (\<lambda>e. fst (fst e) = h) q)))))"
proof (induction st q rule: drain_loop.induct)
  case (1 st)
  show ?case by simp
next
  case (2 st k d t q)
  then show ?case by (simp add: update_conv')
qed

text \<open>
  Claim C7, as the code has it.  The store is last-write-wins: after a drain, the entry
  of a host is the payload of the last event drained for it, a snapshot or \<open>None\<close> alike,
  and it is the entry from before the drain only when no event for that host was
  drained.
\<close>

theorem drain_last_write_wins:
  "map_of (data (drain st q)) h =
     (if filter (\<lambda>e. fst (fst e) = h) q = [] then map_of (data st) h
      else Some (snd (fst (last (filter (\<lambda>e. fst (fst e) = h) q)))))"
  unfolding drain_def by (simp add: drain_loop_data)

text \<open>
  The claim as the specification words it fails: a host with a good snapshot in the
  store whose poller publishes \<open>None\<close> has its entry nulled by the next drain.
\<close>

theorem drain_keeps_last_good_counterexample:
  "map_of (data (drain
      \<lparr>data = [(''h'', Some (snap_ok 1))], last_update = (1::rat), has_update = False\<rparr>
      [((''h'', None), 5)])) ''h'' \<noteq> Some (Some (snap_ok 1))"
  by (simp add: drain_def)

section \<open>The display refresh: results\<close>

text \<open>
  Once as many machines are drawn as are configured, the loop ends whatever hosts are
  left; a host whose entry is \<open>None\<close> leaves the loop variables as they are.
\<close>

lemma display_loop_full:
  "drawn_machines st \<ge> int (length (machines d)) \<Longrightarrow>
   display_loop E d my mx cols cw hs st = Inr st"
  by (cases hs) simp_all

lemma display_loop_skip:
  assumes "map_of (dstore d) h = Some None"
  shows "display_loop E d my mx cols cw (h # hs) st = display_loop E d my mx cols cw hs st"
proof (cases "drawn_machines st \<ge> int (length (machines d))")
  case True
  then show ?thesis by (simp only: display_loop_full)
next
  case False
  with assms show ?thesis by simp
qed

lemma display_loop_skip_mid:
  assumes "map_of (dstore d) h = Some None"
  shows "display_loop E d my mx cols cw (xs @ h # ys) st = display_loop E d my mx cols cw (xs @ ys) st"
proof (induction xs arbitrary: st)
  case Nil
  show ?case by (simp only: append_Nil display_loop_skip [OF assms])
next
  case (Cons x xs)
  show ?case
    by (simp add: Cons.IH Let_def split: option.splits sum.splits prod.splits)
qed

lemma display_loop_without:
  assumes "map_of (dstore d) h = Some None"
    and "machines d' = machines d" and "margin d' = margin d" and "max_devices d' = max_devices d"
    and "\<And>k. k \<noteq> h \<Longrightarrow> map_of (dstore d') k = map_of (dstore d) k"
  shows "display_loop E d' my mx cols cw (filter (\<lambda>k. k \<noteq> h) hs) st
       = display_loop E d my mx cols cw hs st"
proof (induction hs arbitrary: st)
  case Nil
  show ?case by simp
next
  case (Cons k hs)
  show ?case
  proof (cases "k = h")
    case True
    with Cons.IH [of st] display_loop_skip [OF assms(1), of E my mx cols cw hs st]
    show ?thesis by simp
  next
    case False
    with assms(2-5) show ?thesis
      by (simp add: Cons.IH Let_def split: option.splits sum.splits prod.splits)
  qed
qed

lemma keys_delete: "map fst (AList.delete h al) = filter (\<lambda>k. k \<noteq> h) (map fst al)"
  by (induction al) (auto simp: AList.delete_eq)

lemma sort_keys_delete:
  "sort (map fst (AList.delete h al)) = filter (\<lambda>k. k \<noteq> h) (sort (map fst al))"
  by (simp add: keys_delete filter_sort)

text \<open>
  Claim C10.  For a host whose latest event carried \<open>None\<close>: \<^verbatim>\<open>draw_machine_block\<close> on its
  entry draws nothing and returns height 0; the loop on that host alone returns normally
  with the cursor, the count of drawn machines and the window unchanged; anywhere in the
  sorted hosts it can be left out without changing the result of the loop; and the whole
  refresh gives the window, and raises or not, exactly as it does with that host removed
  from the store.
\<close>

theorem update_display_skips_absent:
  assumes "map_of (dstore d) h = Some None"
  shows "draw_machine_block E scr r c w h (the (map_of (dstore d) h)) = Inr (scr, 0)
       \<and> display_loop E d my mx cols cw [h] st = Inr st
       \<and> display_loop E d my mx cols cw (xs @ h # ys) st
           = display_loop E d my mx cols cw (xs @ ys) st
       \<and> map_sum id (\<lambda>r. (stdscr r, last_win_size r)) (update_display E d)
           = map_sum id (\<lambda>r. (stdscr r, last_win_size r))
               (update_display E (d\<lparr>dstore := AList.delete h (dstore d)\<rparr>))"
proof (intro conjI)
  show "draw_machine_block E scr r c w h (the (map_of (dstore d) h)) = Inr (scr, 0)"
    using assms by (simp add: draw_machine_block_def)
next
  show "display_loop E d my mx cols cw [h] st = Inr st"
    using display_loop_skip [OF assms, of E my mx cols cw "[]" st] by simp
next
  show "display_loop E d my mx cols cw (xs @ h # ys) st = display_loop E d my mx cols cw (xs @ ys) st"
    using assms by (rule display_loop_skip_mid)
next
  let ?d' = "d\<lparr>dstore := AList.delete h (dstore d)\<rparr>"
  have lk: "\<And>k. k \<noteq> h \<Longrightarrow> map_of (dstore ?d') k = map_of (dstore d) k"
    by (simp add: delete_conv')
  have loop: "\<And>my mx cols cw st.
      display_loop E ?d' my mx cols cw (sort (map fst (dstore ?d'))) st
      = display_loop E d my mx cols cw (sort (map fst (dstore d))) st"
    using display_loop_without [OF assms, of ?d'] lk by (simp add: sort_keys_delete)
  show "map_sum id (\<lambda>r. (stdscr r, last_win_size r)) (update_display E d)
         = map_sum id (\<lambda>r. (stdscr r, last_win_size r)) (update_display E ?d')"
    unfolding update_display_def Let_def loop
    by (simp split: sum.splits prod.splits)
qed

theorem update_display_skips_absent_witness:
  "display_loop env0 dash0 24 80 1 60 [''g'']
       \<lparr>current_row = 1, current_col = 2, drawn_machines = 0, win = stdscr dash0\<rparr>
     = Inr \<lparr>current_row = 1, current_col = 2, drawn_machines = 0, win = stdscr dash0\<rparr>
   \<and> map_sum id (\<lambda>r. (stdscr r, last_win_size r)) (update_display env0 dash0)
     = Inr (\<lparr>max_y = 24, max_x = 80,
             writes = [(0, 22, '' Cluster Monitor (Press Q to exit) '', 6),
                       (1, 2, ''h'', 0),
                       (23, 0, '' Machines: 1/2 | Update: 12:00:00 '', 6)]\<rparr>, 24, 80)"
proof -
  have a: "map_of (dstore dash0) ''g'' = Some None" by (simp add: dash0_def)
  have b: "map_sum id (\<lambda>r. (stdscr r, last_win_size r))
             (update_display env0 (dash0\<lparr>dstore := AList.delete ''g'' (dstore dash0)\<rparr>))
     = Inr (\<lparr>max_y = 24, max_x = 80,
             writes = [(0, 22, '' Cluster Monitor (Press Q to exit) '', 6),
                       (1, 2, ''h'', 0),
                       (23, 0, '' Machines: 1/2 | Update: 12:00:00 '', 6)]\<rparr>, 24, 80)"
    by code_simp
  from update_display_skips_absent [OF a, where E = env0 and my = 24 and mx = 80 and cols = 1
      and cw = 60 and xs = "[]" and ys = "[]"
      and st = "\<lparr>current_row = 1, current_col = 2, drawn_machines = 0, win = stdscr dash0\<rparr>"]
  show ?thesis using b by simp
qed

end
